theory Spec2Isabelle
  imports Complex_Main "HOL-Library.AList"
begin

section \<open>Values of the host language\<close>

text \<open>
  The hook utilities of \<^verbatim>\<open>src/reanimated2/hook/utils.ts\<close> and the style updater of
  \<^verbatim>\<open>useAnimatedStyle.ts\<close> work on untyped JavaScript values. A number is a double: the
  model keeps the values on which the two equalities of the language disagree
  (\<open>NaN\<close>, the two zeros, the infinities) apart from the finite non-zero ones.
  \<open>Fin 0\<close> is positive zero; finite values are exact rationals, rounding is not
  modelled.
\<close>

datatype jsnum = NaN | NegZero | PosInf | NegInf | Fin rat

text \<open>An exception: a \<^verbatim>\<open>TypeError\<close> of the runtime, or an \<^verbatim>\<open>Error\<close> thrown with a message.\<close>

datatype jserror = TypeError | Error string

text \<open>\<^verbatim>\<open>x === y\<close> on numbers: \<open>NaN\<close> equals nothing, the two zeros are equal.\<close>

fun num_strict_eq :: "jsnum \<Rightarrow> jsnum \<Rightarrow> bool" where
  "num_strict_eq NaN _ = False"
| "num_strict_eq _ NaN = False"
| "num_strict_eq NegZero (Fin r) = (r = 0)"
| "num_strict_eq (Fin r) NegZero = (r = 0)"
| "num_strict_eq x y = (x = y)"

text \<open>\<^verbatim>\<open>1 / x\<close> on numbers.\<close>

fun recip :: "jsnum \<Rightarrow> jsnum" where
  "recip NaN = NaN"
| "recip NegZero = NegInf"
| "recip PosInf = Fin 0"
| "recip NegInf = NegZero"
| "recip (Fin r) = (if r = 0 then PosInf else Fin (1 / r))"

text \<open>
  \<^verbatim>\<open>Number.prototype.toString\<close> on a non-negative integer: its decimal digits. That is
  the text the language gives below \<open>10\<^sup>2\<^sup>1\<close>; from there on it writes an exponent,
  which is not modelled. \<^verbatim>\<open>__workletHash\<close> is a number, and a number that is an integer
  the language holds exactly is below \<open>2\<^sup>5\<^sup>3\<close>.
\<close>

fun digit :: "nat \<Rightarrow> char" where
  "digit n = ''0123456789'' ! n"

function toString :: "nat \<Rightarrow> string" where
  "toString n = (if n < 10 then [digit n] else toString (n div 10) @ [digit (n mod 10)])"
  by pat_completeness auto
termination
  by (relation "measure id") auto

declare toString.simps [simp del]

section \<open>Dependency tracker\<close>

text \<open>
  An element of a dependency list is \<^verbatim>\<open>unknown\<close>: a primitive, or an object, of which
  the comparison sees the identity only (\<open>DObj\<close> carries the address).
\<close>

datatype dep = DUndefined | DNull | DBool bool | DNum jsnum | DStr string | DObj nat

text \<open>\<^verbatim>\<open>x === y\<close> on dependency values.\<close>

fun strict_eq :: "dep \<Rightarrow> dep \<Rightarrow> bool" where
  "strict_eq (DNum x) (DNum y) = num_strict_eq x y"
| "strict_eq x y = (x = y)"

text \<open>
  \<^verbatim>\<open>1 / x\<close> on a dependency value. \<open>is_js\<close> below evaluates it only after
  \<^verbatim>\<open>x === y\<close> and \<^verbatim>\<open>x === 0\<close> have held, that is on numbers; the coercion of the other
  values to a number is not modelled and stands as \<open>NaN\<close>.
\<close>

fun div1 :: "dep \<Rightarrow> jsnum" where
  "div1 (DNum x) = recip x"
| "div1 _ = NaN"

text \<open>
  The local function \<^verbatim>\<open>is\<close> of \<^verbatim>\<open>areDependenciesEqual\<close>:
  \<^verbatim>\<open>(x === y && (x !== 0 || 1 / x === 1 / y)) || (x !== x && y !== y)\<close>.
\<close>

definition is_js :: "dep \<Rightarrow> dep \<Rightarrow> bool" where
  "is_js x y =
     ((strict_eq x y \<and> (\<not> strict_eq x (DNum (Fin 0)) \<or> num_strict_eq (div1 x) (div1 y)))
      \<or> (\<not> strict_eq x x \<and> \<not> strict_eq y y))"

text \<open>The builtin \<^verbatim>\<open>Object.is\<close> (SameValue): the same primitive, or the same object.\<close>

definition Object_is :: "dep \<Rightarrow> dep \<Rightarrow> bool" where
  "Object_is x y = (x = y)"

text \<open>
  \<^verbatim>\<open>typeof Object.is === 'function' ? Object.is : is\<close>; whether the runtime has the
  builtin is the parameter \<open>has_builtin\<close>.
\<close>

definition objectIs :: "bool \<Rightarrow> dep \<Rightarrow> dep \<Rightarrow> bool" where
  "objectIs has_builtin = (if has_builtin then Object_is else is_js)"

text \<open>The loop of \<^verbatim>\<open>areHookInputsEqual\<close>, over the two lists side by side.\<close>

fun inputs_loop :: "bool \<Rightarrow> dep list \<Rightarrow> dep list \<Rightarrow> bool" where
  "inputs_loop b (x # xs) (y # ys) = (if \<not> objectIs b x y then False else inputs_loop b xs ys)"
| "inputs_loop b _ _ = True"

text \<open>A \<^verbatim>\<open>DependencyList\<close> is an array or \<^verbatim>\<open>undefined\<close> (\<open>None\<close>).\<close>

definition areHookInputsEqual :: "bool \<Rightarrow> dep list option \<Rightarrow> dep list option \<Rightarrow> bool" where
  "areHookInputsEqual b nextDeps prevDeps =
     (case (nextDeps, prevDeps) of
        (Some n, Some p) \<Rightarrow> if length p \<noteq> length n then False else inputs_loop b n p
      | _ \<Rightarrow> False)"

definition areDependenciesEqual :: "bool \<Rightarrow> dep list option \<Rightarrow> dep list option \<Rightarrow> bool" where
  "areDependenciesEqual b nextDeps prevDeps = areHookInputsEqual b nextDeps prevDeps"

text \<open>
  A worklet, as far as the tracker reads it: \<^verbatim>\<open>__workletHash\<close> (optional in the type
  \<^verbatim>\<open>WorkletFunction\<close>) and \<^verbatim>\<open>_closure\<close>.
\<close>

record worklet =
  workletHash :: "nat option"
  closure :: dep

text \<open>
  \<^verbatim>\<open>buildWorkletsHash\<close>: the reduction that appends \<^verbatim>\<open>__workletHash!.toString()\<close> of each
  handler to the accumulator; a handler without a hash raises (the call on
  \<^verbatim>\<open>undefined\<close>).
\<close>

fun buildWorkletsHash_from :: "string \<Rightarrow> worklet list \<Rightarrow> jserror + string" where
  "buildWorkletsHash_from acc [] = Inr acc"
| "buildWorkletsHash_from acc (w # ws) =
     (case workletHash w of
        None \<Rightarrow> Inl TypeError
      | Some n \<Rightarrow> buildWorkletsHash_from (acc @ toString n) ws)"

definition buildWorkletsHash :: "worklet list \<Rightarrow> jserror + string" where
  "buildWorkletsHash handlers = buildWorkletsHash_from [] handlers"

text \<open>
  \<^verbatim>\<open>buildDependencies\<close> pushes onto the array it is given, so arrays live in a store:
  \<open>arrays\<close> maps an address to the array's elements, \<open>infos\<close> holds the
  \<^verbatim>\<open>{workletHash, closure}\<close> objects the function creates, and \<open>fresh\<close> is the next
  free address.
\<close>

record depstore =
  arrays :: "nat \<Rightarrow> dep list"
  infos :: "nat \<Rightarrow> (nat option \<times> dep)"
  fresh :: nat

text \<open>The \<^verbatim>\<open>map\<close> of the first branch: one new object per handler.\<close>

fun handler_infos :: "worklet list \<Rightarrow> depstore \<Rightarrow> dep list \<times> depstore" where
  "handler_infos [] s = ([], s)"
| "handler_infos (w # ws) s =
     (let a = fresh s;
          s1 = s\<lparr>infos := (infos s)(a := (workletHash w, closure w)), fresh := Suc a\<rparr>;
          (ds, s2) = handler_infos ws s1
      in (DObj a # ds, s2))"

text \<open>
  \<^verbatim>\<open>buildDependencies(dependencies, handlers)\<close>: \<open>handlers\<close> is the record of handlers
  in the order of \<^verbatim>\<open>Object.values\<close>, an absent handler being \<open>None\<close>. The result is
  the address of the returned array and the store after the call.
\<close>

definition buildDependencies ::
  "nat option \<Rightarrow> (string \<times> worklet option) list \<Rightarrow> depstore \<Rightarrow> jserror + (nat \<times> depstore)" where
  "buildDependencies dependencies handlers s =
     (let handlersList = map the (filter (\<lambda>h. h \<noteq> None) (map snd handlers)) in
      case dependencies of
        None \<Rightarrow>
          (let (ds, s1) = handler_infos handlersList s;
               a = fresh s1
           in Inr (a, s1\<lparr>arrays := (arrays s1)(a := ds), fresh := Suc a\<rparr>))
      | Some a \<Rightarrow>
          (case buildWorkletsHash handlersList of
             Inl e \<Rightarrow> Inl e
           | Inr hash \<Rightarrow> Inr (a, s\<lparr>arrays := (arrays s)(a := arrays s a @ [DStr hash])\<rparr>)))"

section \<open>Property trees\<close>

text \<open>
  A property key is an array index or a property name (a name is never the decimal
  text of an index). A value is a primitive, an array, a plain object (its entries in
  insertion order; the keys of an object are distinct) or a reference \<open>Ref a\<close> to an
  animation object, which lives in the heap because the walker and the animation's own
  callbacks mutate it while the producer's result, \<^verbatim>\<open>state.animations\<close> and
  \<^verbatim>\<open>state.last\<close> all point to it. There are no function values: a function exists only
  as a slot of an animation object.
\<close>

datatype pkey = Idx nat | Name string

datatype jsval =
    Undefined
  | Null
  | Bool bool
  | Num jsnum
  | Str string
  | Arr "jsval list"
  | Obj "(pkey \<times> jsval) list"
  | Ref nat

type_synonym props = "(pkey \<times> jsval) list"

text \<open>
  An animation object. \<open>props\<close> lists, in the order of enumeration, its own properties
  that hold no function: the data (\<^verbatim>\<open>current\<close>, \<^verbatim>\<open>finished\<close>, \<^verbatim>\<open>timestamp\<close>,
  \<^verbatim>\<open>toValue\<close>, ...) and every other property that is \<^verbatim>\<open>undefined\<close> or \<^verbatim>\<open>null\<close> at the
  moment, such as a \<^verbatim>\<open>callback: undefined\<close> that the animation definition listed, or the
  \<^verbatim>\<open>callStart: null\<close> that \<^verbatim>\<open>prepareAnimation\<close> leaves behind. The functions are slots of
  their own: the identifiers of \<^verbatim>\<open>onStart\<close> and \<^verbatim>\<open>onFrame\<close>, the completion \<^verbatim>\<open>callback\<close>
  if it is a function, and in \<^verbatim>\<open>callStart\<close> the closure \<^verbatim>\<open>prepareAnimation\<close> stores there,
  given by the two variables it captures (the seed value and the previous animation).
  \<open>None\<close> in a slot says that the property holds no function; whether the object then
  has the property at all, holding \<^verbatim>\<open>undefined\<close> or \<^verbatim>\<open>null\<close>, is told by \<open>props\<close>.
\<close>

record anim =
  props :: props
  onStart :: nat
  onFrame :: nat
  callback :: "nat option"
  callStart :: "(jsval \<times> jsval) option"

type_synonym heap = "nat \<Rightarrow> anim"

text \<open>
  What the functions \<^verbatim>\<open>onStart(animation, value, timestamp, previousAnimation)\<close> and
  \<^verbatim>\<open>onFrame(animation, timestamp)\<close> of the animation definitions do is a parameter of
  the model: each is any function of the heap, told the identifier of the function and
  the address of the animation.
\<close>

record callbacks =
  call_onStart :: "nat \<Rightarrow> nat \<Rightarrow> jsval \<Rightarrow> jsval \<Rightarrow> jsval \<Rightarrow> heap \<Rightarrow> heap"
  call_onFrame :: "nat \<Rightarrow> nat \<Rightarrow> jsval \<Rightarrow> heap \<Rightarrow> bool \<times> heap"

fun typeof :: "jsval \<Rightarrow> string" where
  "typeof Undefined = ''undefined''"
| "typeof (Bool _) = ''boolean''"
| "typeof (Num _) = ''number''"
| "typeof (Str _) = ''string''"
| "typeof _ = ''object''"

fun isArray :: "jsval \<Rightarrow> bool" where
  "isArray (Arr _) = True"
| "isArray _ = False"

fun truthy :: "jsval \<Rightarrow> bool" where
  "truthy Undefined = False"
| "truthy Null = False"
| "truthy (Bool b) = b"
| "truthy (Num n) = (n \<noteq> NaN \<and> n \<noteq> NegZero \<and> n \<noteq> Fin 0)"
| "truthy (Str s) = (s \<noteq> [])"
| "truthy _ = True"

definition nullish :: "jsval \<Rightarrow> bool" where
  "nullish v = (v = Undefined \<or> v = Null)"

text \<open>\<^verbatim>\<open>o[k]\<close> on the entries of an object: \<^verbatim>\<open>undefined\<close> for a missing key.\<close>

definition obj_get :: "props \<Rightarrow> pkey \<Rightarrow> jsval" where
  "obj_get kvs k = (case map_of kvs k of None \<Rightarrow> Undefined | Some v \<Rightarrow> v)"

text \<open>
  \<^verbatim>\<open>v?.[k]\<close>, the read of a data property: of an animation object through the heap,
  of a string or an array by index or \<^verbatim>\<open>length\<close>. Inherited properties are not
  modelled. \<^verbatim>\<open>v[k]\<close> raises on \<^verbatim>\<open>null\<close> and \<^verbatim>\<open>undefined\<close>.
\<close>

fun read_prop :: "heap \<Rightarrow> jsval \<Rightarrow> pkey \<Rightarrow> jsval" where
  "read_prop h (Obj kvs) k = obj_get kvs k"
| "read_prop h (Ref a) k = obj_get (props (h a)) k"
| "read_prop h (Arr xs) (Idx i) = (if i < length xs then xs ! i else Undefined)"
| "read_prop h (Arr xs) (Name n) = (if n = ''length'' then Num (Fin (of_nat (length xs))) else Undefined)"
| "read_prop h (Str s) (Idx i) = (if i < length s then Str [s ! i] else Undefined)"
| "read_prop h (Str s) (Name n) = (if n = ''length'' then Num (Fin (of_nat (length s))) else Undefined)"
| "read_prop h _ k = Undefined"

definition get_prop :: "heap \<Rightarrow> jsval \<Rightarrow> pkey \<Rightarrow> jserror + jsval" where
  "get_prop h v k = (if nullish v then Inl TypeError else Inr (read_prop h v k))"

text \<open>
  \<^verbatim>\<open>v?.onFrame !== undefined\<close>: an animation object has the function, any other value
  has it if it has a data property of that name.
\<close>

fun onFrame_defined :: "heap \<Rightarrow> jsval \<Rightarrow> bool" where
  "onFrame_defined h (Ref a) = True"
| "onFrame_defined h v = (read_prop h v (Name ''onFrame'') \<noteq> Undefined)"

text \<open>
  The keys \<^verbatim>\<open>for (const key in v)\<close> and \<^verbatim>\<open>Object.keys(v)\<close> enumerate, in insertion
  order (the language's reordering of index-like keys of a plain object is not
  modelled). Of an animation object the properties in \<open>props\<close> are enumerated: those
  that hold \<^verbatim>\<open>null\<close> or \<^verbatim>\<open>undefined\<close> are met like the data. A property that holds a
  function is passed over: \<^verbatim>\<open>isAnimated\<close>, which enumerates the animation objects it finds
  as elements of an array, reads of a member only whether it is \<^verbatim>\<open>null\<close> or \<^verbatim>\<open>undefined\<close>
  and whether it has an \<^verbatim>\<open>onFrame\<close>, and a function is neither and has none. (The loops
  of the updaters over a tree that is itself one animation object would read its
  functions as values; such a tree is outside the model.)
\<close>

fun own_keys :: "heap \<Rightarrow> jsval \<Rightarrow> pkey list" where
  "own_keys h (Obj kvs) = map fst kvs"
| "own_keys h (Ref a) = map fst (props (h a))"
| "own_keys h (Arr xs) = map Idx [0..<length xs]"
| "own_keys h (Str s) = map Idx [0..<length s]"
| "own_keys h _ = []"

text \<open>\<^verbatim>\<open>a && a[k]\<close>: \<open>a\<close> itself when it is falsy.\<close>

definition and_index :: "heap \<Rightarrow> jsval \<Rightarrow> pkey \<Rightarrow> jsval" where
  "and_index h a k = (if truthy a then read_prop h a k else a)"

section \<open>Style differ\<close>

text \<open>
  \<^verbatim>\<open>isAnimated\<close>. For an array: the first member of an element, in the order of the two
  loops, whose \<^verbatim>\<open>onFrame\<close> is defined makes the result true; reading \<^verbatim>\<open>onFrame\<close> of a
  member that is \<^verbatim>\<open>null\<close> or \<^verbatim>\<open>undefined\<close> raises.
\<close>

fun member_animated :: "heap \<Rightarrow> jsval \<Rightarrow> pkey list \<Rightarrow> jserror + bool" where
  "member_animated h item [] = Inr False"
| "member_animated h item (key # keys) =
     (if nullish (read_prop h item key) then Inl TypeError
      else if onFrame_defined h (read_prop h item key) then Inr True
      else member_animated h item keys)"

fun item_animated :: "heap \<Rightarrow> jsval list \<Rightarrow> jserror + bool" where
  "item_animated h [] = Inr False"
| "item_animated h (item # items) =
     (case member_animated h item (own_keys h item) of
        Inl e \<Rightarrow> Inl e
      | Inr True \<Rightarrow> Inr True
      | Inr False \<Rightarrow> item_animated h items)"

fun isAnimated :: "heap \<Rightarrow> jsval \<Rightarrow> jserror + bool" where
  "isAnimated h (Arr xs) = item_animated h xs"
| "isAnimated h v = Inr (onFrame_defined h v)"

text \<open>
  \<^verbatim>\<open>a === b\<close> on values. Of two arrays or plain objects the model does not know whether
  they are one object, and answers no. \<^verbatim>\<open>styleDiff\<close>, the one place that compares
  values, goes on to compare the two JSON texts when the answer is no, and those are
  equal when the two are one object: its verdict is the one the language gives.
\<close>

fun val_strict_eq :: "jsval \<Rightarrow> jsval \<Rightarrow> bool" where
  "val_strict_eq (Num x) (Num y) = num_strict_eq x y"
| "val_strict_eq (Arr _) _ = False"
| "val_strict_eq (Obj _) _ = False"
| "val_strict_eq x y = (x = y)"

text \<open>
  \<^verbatim>\<open>styleDiff(oldStyle, newStyle)\<close>. The builtin \<^verbatim>\<open>JSON.stringify\<close> is the parameter
  \<open>stringify\<close>: a function of the value (and of the heap, for the animation objects in
  it) to a text, or to \<^verbatim>\<open>undefined\<close> (\<open>None\<close>). \<^verbatim>\<open>Object.keys\<close> raises on \<^verbatim>\<open>null\<close> and
  \<^verbatim>\<open>undefined\<close>.
\<close>

fun removed_keys :: "heap \<Rightarrow> jsval \<Rightarrow> pkey list \<Rightarrow> props \<Rightarrow> jserror + props" where
  "removed_keys h newStyle [] diff = Inr diff"
| "removed_keys h newStyle (key # keys) diff =
     (case get_prop h newStyle key of
        Inl e \<Rightarrow> Inl e
      | Inr v \<Rightarrow>
          removed_keys h newStyle keys (if v = Undefined then AList.update key Null diff else diff))"

fun changed_keys ::
  "(heap \<Rightarrow> jsval \<Rightarrow> string option) \<Rightarrow> heap \<Rightarrow> jsval \<Rightarrow> jsval \<Rightarrow> pkey list \<Rightarrow> props
    \<Rightarrow> jserror + props" where
  "changed_keys stringify h oldStyle newStyle [] diff = Inr diff"
| "changed_keys stringify h oldStyle newStyle (key # keys) diff =
     (let val = read_prop h newStyle key in
      case get_prop h oldStyle key of
        Inl e \<Rightarrow> Inl e
      | Inr oldValue \<Rightarrow>
          (case isAnimated h val of
             Inl e \<Rightarrow> Inl e
           | Inr True \<Rightarrow> changed_keys stringify h oldStyle newStyle keys diff
           | Inr False \<Rightarrow>
               changed_keys stringify h oldStyle newStyle keys
                 (if \<not> val_strict_eq oldValue val \<and> stringify h oldValue \<noteq> stringify h val
                  then AList.update key val diff else diff)))"

definition styleDiff ::
  "(heap \<Rightarrow> jsval \<Rightarrow> string option) \<Rightarrow> heap \<Rightarrow> jsval \<Rightarrow> jsval \<Rightarrow> jserror + props" where
  "styleDiff stringify h oldStyle newStyle =
     (if nullish oldStyle then Inl TypeError
      else case removed_keys h newStyle (own_keys h oldStyle) [] of
        Inl e \<Rightarrow> Inl e
      | Inr diff \<Rightarrow>
          if nullish newStyle then Inl TypeError
          else changed_keys stringify h oldStyle newStyle (own_keys h newStyle) diff)"

text \<open>\<^verbatim>\<open>getStyleWithoutAnimations\<close>; a loop over \<^verbatim>\<open>null\<close> or \<^verbatim>\<open>undefined\<close> has no rounds.\<close>

fun static_keys :: "heap \<Rightarrow> jsval \<Rightarrow> pkey list \<Rightarrow> props \<Rightarrow> jserror + props" where
  "static_keys h newStyle [] diff = Inr diff"
| "static_keys h newStyle (key # keys) diff =
     (case isAnimated h (read_prop h newStyle key) of
        Inl e \<Rightarrow> Inl e
      | Inr True \<Rightarrow> static_keys h newStyle keys diff
      | Inr False \<Rightarrow> static_keys h newStyle keys (AList.update key (read_prop h newStyle key) diff))"

definition getStyleWithoutAnimations :: "heap \<Rightarrow> jsval \<Rightarrow> jserror + props" where
  "getStyleWithoutAnimations h newStyle = static_keys h newStyle (own_keys h newStyle) []"

text \<open>\<^verbatim>\<open>validateAnimatedStyles\<close>, with the two messages of the source.\<close>

definition validateAnimatedStyles :: "jsval \<Rightarrow> jserror + unit" where
  "validateAnimatedStyles styles =
     (if typeof styles \<noteq> ''object'' then
        Inl (Error (''useAnimatedStyle has to return an object, found '' @ typeof styles @ '' instead''))
      else if isArray styles then
        Inl (Error (''useAnimatedStyle has to return an object and cannot return static styles ''
          @ ''combined with dynamic ones. Please do merging where a component receives props.''))
      else Inr ())"

section \<open>Tree walker\<close>

text \<open>
  The seed of \<^verbatim>\<open>prepareAnimation\<close>: the local \<^verbatim>\<open>value\<close>, from \<^verbatim>\<open>animation.current\<close>
  (\<open>cur\<close>), \<^verbatim>\<open>lastAnimation\<close> and \<^verbatim>\<open>lastValue\<close>. \<^verbatim>\<open>typeof null\<close> is \<^verbatim>\<open>'object'\<close>, and
  the read of \<^verbatim>\<open>lastValue.value\<close> that follows raises on \<^verbatim>\<open>null\<close>.
\<close>

definition seed_value :: "heap \<Rightarrow> jsval \<Rightarrow> jsval \<Rightarrow> jsval \<Rightarrow> jserror + jsval" where
  "seed_value h cur lastAnimation lastValue =
     (if lastValue \<noteq> Undefined then
        if typeof lastValue = ''object'' then
          case get_prop h lastValue (Name ''value'') of
            Inl e \<Rightarrow> Inl e
          | Inr v \<Rightarrow>
              if v \<noteq> Undefined then Inr v
              else if onFrame_defined h lastValue then
                if read_prop h lastAnimation (Name ''current'') \<noteq> Undefined
                then Inr (read_prop h lastAnimation (Name ''current''))
                else if read_prop h lastValue (Name ''current'') \<noteq> Undefined
                then Inr (read_prop h lastValue (Name ''current''))
                else Inr cur
              else Inr cur
        else Inr lastValue
      else Inr cur)"

text \<open>
  The property \<^verbatim>\<open>callStart\<close> exists from the assignment of the closure on: if the object
  had none, it is listed last, and while it holds the closure its entry in \<open>props\<close>
  only keeps its place in the enumeration.
\<close>

definition list_callStart :: "props \<Rightarrow> props" where
  "list_callStart kvs =
     (case map_of kvs (Name ''callStart'') of
        None \<Rightarrow> kvs @ [(Name ''callStart'', Null)]
      | Some v \<Rightarrow> kvs)"

text \<open>
  The call \<^verbatim>\<open>animation.callStart(timestamp)\<close> of the closure that captured \<open>seed\<close> and
  \<open>lastAnimation\<close>, followed by \<^verbatim>\<open>animation.callStart = null\<close>: from then on the object
  has the property \<^verbatim>\<open>callStart\<close>, and it holds \<^verbatim>\<open>null\<close>.
\<close>

definition run_callStart :: "callbacks \<Rightarrow> nat \<Rightarrow> jsval \<Rightarrow> jsval \<Rightarrow> jsval \<Rightarrow> heap \<Rightarrow> heap" where
  "run_callStart L a seed timestamp lastAnimation h =
     (let h0 = h(a := (h a)\<lparr>props := list_callStart (props (h a))\<rparr>);
          h1 = call_onStart L (onStart (h0 a)) a seed timestamp lastAnimation h0
      in h1(a := (h1 a)\<lparr>callStart := None,
                        props := AList.update (Name ''callStart'') Null (props (h1 a))\<rparr>))"

text \<open>
  \<^verbatim>\<open>prepareAnimation(animatedProp, lastAnimation, lastValue)\<close>; \<open>now\<close> is what
  \<^verbatim>\<open>getTimestamp()\<close> returns. An array is walked by its \<^verbatim>\<open>forEach\<close> and then, the first
  branch having no \<^verbatim>\<open>return\<close> and an array being an object without \<^verbatim>\<open>onFrame\<close>, once
  more by the loop over \<^verbatim>\<open>Object.keys\<close>. A plain object with a truthy \<^verbatim>\<open>onFrame\<close> takes
  the animation branch, where the call of its \<^verbatim>\<open>onStart\<close>, which is no function, raises.
\<close>

fun prepareAnimation ::
      "callbacks \<Rightarrow> jsval \<Rightarrow> heap \<Rightarrow> jsval \<Rightarrow> jsval \<Rightarrow> jsval \<Rightarrow> jserror + heap"
  and prepare_items ::
      "callbacks \<Rightarrow> jsval \<Rightarrow> heap \<Rightarrow> nat \<Rightarrow> jsval list \<Rightarrow> jsval \<Rightarrow> jsval \<Rightarrow> jserror + heap"
  and prepare_entries ::
      "callbacks \<Rightarrow> jsval \<Rightarrow> heap \<Rightarrow> props \<Rightarrow> jsval \<Rightarrow> jsval \<Rightarrow> jserror + heap"
where
  "prepareAnimation L now h (Arr xs) lastAnimation lastValue =
     (case prepare_items L now h 0 xs lastAnimation lastValue of
        Inl e \<Rightarrow> Inl e
      | Inr h1 \<Rightarrow> prepare_items L now h1 0 xs lastAnimation lastValue)"
| "prepareAnimation L now h (Ref a) lastAnimation lastValue =
     (case seed_value h (read_prop h (Ref a) (Name ''current'')) lastAnimation lastValue of
        Inl e \<Rightarrow> Inl e
      | Inr seed \<Rightarrow>
          Inr (run_callStart L a seed now lastAnimation
                 (h(a := (h a)\<lparr>callStart := Some (seed, lastAnimation)\<rparr>))))"
| "prepareAnimation L now h (Obj kvs) lastAnimation lastValue =
     (if truthy (obj_get kvs (Name ''onFrame'')) then
        case seed_value h (obj_get kvs (Name ''current'')) lastAnimation lastValue of
          Inl e \<Rightarrow> Inl e
        | Inr seed \<Rightarrow> Inl TypeError
      else prepare_entries L now h kvs lastAnimation lastValue)"
| "prepareAnimation L now h Null lastAnimation lastValue = Inl TypeError"
| "prepareAnimation L now h Undefined lastAnimation lastValue = Inr h"
| "prepareAnimation L now h (Bool b) lastAnimation lastValue = Inr h"
| "prepareAnimation L now h (Num n) lastAnimation lastValue = Inr h"
| "prepareAnimation L now h (Str s) lastAnimation lastValue = Inr h"
| "prepare_items L now h i [] lastAnimation lastValue = Inr h"
| "prepare_items L now h i (x # xs) lastAnimation lastValue =
     (case prepareAnimation L now h x
             (and_index h lastAnimation (Idx i)) (and_index h lastValue (Idx i)) of
        Inl e \<Rightarrow> Inl e
      | Inr h1 \<Rightarrow> prepare_items L now h1 (Suc i) xs lastAnimation lastValue)"
| "prepare_entries L now h [] lastAnimation lastValue = Inr h"
| "prepare_entries L now h (kv # kvs) lastAnimation lastValue =
     (case prepareAnimation L now h (snd kv)
             (and_index h lastAnimation (fst kv)) (and_index h lastValue (fst kv)) of
        Inl e \<Rightarrow> Inl e
      | Inr h1 \<Rightarrow> prepare_entries L now h1 kvs lastAnimation lastValue)"

text \<open>
  What the walk of \<^verbatim>\<open>runAnimations\<close> changes: the heap, and the completion callbacks
  called so far (each with \<^verbatim>\<open>true\<close>).
\<close>

type_synonym walk_state = "heap \<times> nat list"

text \<open>The value a call wrote to \<^verbatim>\<open>result[key]\<close>, read back: \<^verbatim>\<open>undefined\<close> if it wrote none.\<close>

definition written :: "jsval option \<Rightarrow> jsval" where
  "written r = (case r of None \<Rightarrow> Undefined | Some v \<Rightarrow> v)"

text \<open>The animation branch of \<^verbatim>\<open>runAnimations\<close> on an animation object.\<close>

definition step_animation ::
  "callbacks \<Rightarrow> jsval \<Rightarrow> walk_state \<Rightarrow> nat \<Rightarrow> bool \<times> walk_state \<times> jsval" where
  "step_animation L timestamp s a =
     (let h = fst s in
      if truthy (obj_get (props (h a)) (Name ''finished'')) then
        (True, s, obj_get (props (h a)) (Name ''current''))
      else
        let h1 = (case callStart (h a) of
                    None \<Rightarrow> h
                  | Some (seed, lastAnimation) \<Rightarrow> run_callStart L a seed timestamp lastAnimation h);
            (finished, h2) = call_onFrame L (onFrame (h1 a)) a timestamp h1;
            h3 = h2(a := (h2 a)\<lparr>props := AList.update (Name ''timestamp'') timestamp (props (h2 a))\<rparr>);
            h4 = (if finished
                  then h3(a := (h3 a)\<lparr>props := AList.update (Name ''finished'') (Bool True) (props (h3 a))\<rparr>)
                  else h3);
            called = (if finished
                      then (case callback (h4 a) of None \<Rightarrow> [] | Some c \<Rightarrow> [c])
                      else [])
        in (finished, (h4, snd s @ called), obj_get (props (h4 a)) (Name ''current'')))"

text \<open>
  \<^verbatim>\<open>runAnimations(animation, timestamp, key, result, animationsActive)\<close>. The result is
  the returned flag, the state after the walk, and the value written to
  \<^verbatim>\<open>result[key]\<close>, if one was. The flag \<open>active\<close> is read at every level, as in the
  source; a plain object with a truthy \<^verbatim>\<open>onFrame\<close> is read like an animation when its
  \<^verbatim>\<open>finished\<close> is truthy, and the call of its \<^verbatim>\<open>onFrame\<close> raises when it is not.
\<close>

fun runAnimations ::
      "callbacks \<Rightarrow> jsval \<Rightarrow> bool \<Rightarrow> walk_state \<Rightarrow> jsval
        \<Rightarrow> jserror + (bool \<times> walk_state \<times> jsval option)"
  and run_items ::
      "callbacks \<Rightarrow> jsval \<Rightarrow> bool \<Rightarrow> walk_state \<Rightarrow> jsval list
        \<Rightarrow> jserror + (bool \<times> walk_state \<times> jsval list)"
  and run_entries ::
      "callbacks \<Rightarrow> jsval \<Rightarrow> bool \<Rightarrow> walk_state \<Rightarrow> props
        \<Rightarrow> jserror + (bool \<times> walk_state \<times> props)"
where
  "runAnimations L timestamp active s (Arr xs) =
     (if \<not> active then Inr (True, s, None)
      else case run_items L timestamp active s xs of
        Inl e \<Rightarrow> Inl e
      | Inr (allFinished, s1, rs) \<Rightarrow> Inr (allFinished, s1, Some (Arr rs)))"
| "runAnimations L timestamp active s (Ref a) =
     (if \<not> active then Inr (True, s, None)
      else case step_animation L timestamp s a of
        (finished, s1, r) \<Rightarrow> Inr (finished, s1, Some r))"
| "runAnimations L timestamp active s (Obj kvs) =
     (if \<not> active then Inr (True, s, None)
      else if truthy (obj_get kvs (Name ''onFrame'')) then
        if truthy (obj_get kvs (Name ''finished''))
        then Inr (True, s, Some (obj_get kvs (Name ''current'')))
        else Inl TypeError
      else case run_entries L timestamp active s kvs of
        Inl e \<Rightarrow> Inl e
      | Inr (allFinished, s1, rs) \<Rightarrow> Inr (allFinished, s1, Some (Obj rs)))"
| "runAnimations L timestamp active s Null =
     (if \<not> active then Inr (True, s, None) else Inl TypeError)"
| "runAnimations L timestamp active s Undefined =
     (if \<not> active then Inr (True, s, None) else Inr (True, s, Some Undefined))"
| "runAnimations L timestamp active s (Bool b) =
     (if \<not> active then Inr (True, s, None) else Inr (True, s, Some (Bool b)))"
| "runAnimations L timestamp active s (Num n) =
     (if \<not> active then Inr (True, s, None) else Inr (True, s, Some (Num n)))"
| "runAnimations L timestamp active s (Str t) =
     (if \<not> active then Inr (True, s, None) else Inr (True, s, Some (Str t)))"
| "run_items L timestamp active s [] = Inr (True, s, [])"
| "run_items L timestamp active s (x # xs) =
     (case runAnimations L timestamp active s x of
        Inl e \<Rightarrow> Inl e
      | Inr (finished, s1, r) \<Rightarrow>
          (case run_items L timestamp active s1 xs of
             Inl e \<Rightarrow> Inl e
           | Inr (allFinished, s2, rs) \<Rightarrow> Inr (finished \<and> allFinished, s2, written r # rs)))"
| "run_entries L timestamp active s [] = Inr (True, s, [])"
| "run_entries L timestamp active s (kv # kvs) =
     (case runAnimations L timestamp active s (snd kv) of
        Inl e \<Rightarrow> Inl e
      | Inr (finished, s1, r) \<Rightarrow>
          (case run_entries L timestamp active s1 kvs of
             Inl e \<Rightarrow> Inl e
           | Inr (allFinished, s2, rs) \<Rightarrow>
               Inr (finished \<and> allFinished, s2,
                    (case r of None \<Rightarrow> rs | Some v \<Rightarrow> (fst kv, v) # rs))))"

section \<open>Style updater\<close>

text \<open>
  \<^verbatim>\<open>AnimatedState\<close>, as its interface declares it. \<open>last_values\<close> is the field
  \<^verbatim>\<open>last\<close>. Both trees are property maps; an \<^verbatim>\<open>animations\<close> that is still
  \<^verbatim>\<open>undefined\<close>, or the empty array the updater stores on cancellation, is the empty
  map (the updater only reads, writes, deletes and enumerates named keys of it).
\<close>

record AnimatedState =
  last_values :: props
  animations :: props
  isAnimationRunning :: bool
  isAnimationCancelled :: bool

text \<open>
  What is outside the state: the heap of animation objects, the completion callbacks
  called, the trees handed to \<^verbatim>\<open>updateProps\<close> (or \<^verbatim>\<open>updatePropsJestWrapper\<close>) in
  order, and how often \<^verbatim>\<open>requestFrame(frame)\<close> was called.
\<close>

record world =
  heap :: heap
  fired :: "nat list"
  commits :: "jsval list"
  requested :: nat

text \<open>
  The loop of \<^verbatim>\<open>frame\<close> over the keys of \<^verbatim>\<open>animations\<close>. It carries the walk state,
  \<^verbatim>\<open>last\<close>, \<^verbatim>\<open>animations\<close>, \<^verbatim>\<open>updates\<close> and \<^verbatim>\<open>allFinished\<close>.
\<close>

fun frame_loop ::
  "callbacks \<Rightarrow> jsval \<Rightarrow> bool \<Rightarrow> pkey list
    \<Rightarrow> walk_state \<times> props \<times> props \<times> props \<times> bool
    \<Rightarrow> jserror + (walk_state \<times> props \<times> props \<times> props \<times> bool)" where
  "frame_loop L timestamp active [] acc = Inr acc"
| "frame_loop L timestamp active (propName # keys) (s, lastV, anims, updates, allFinished) =
     (case runAnimations L timestamp active s (obj_get anims propName) of
        Inl e \<Rightarrow> Inl e
      | Inr (finished, s1, r) \<Rightarrow>
          (let updates1 = (case r of None \<Rightarrow> updates | Some v \<Rightarrow> AList.update propName v updates)
           in if finished then
                frame_loop L timestamp active keys
                  (s1, AList.update propName (obj_get updates1 propName) lastV,
                   AList.delete propName anims, updates1, allFinished)
              else frame_loop L timestamp active keys (s1, lastV, anims, updates1, False)))"

text \<open>
  The continuation \<^verbatim>\<open>frame(timestamp)\<close> of \<^verbatim>\<open>styleUpdater\<close>; \<open>active\<close> is
  \<^verbatim>\<open>animationsActive.value\<close>. It commits \<^verbatim>\<open>updates\<close> whatever it holds (an object is
  truthy).
\<close>

definition frame ::
  "callbacks \<Rightarrow> bool \<Rightarrow> jsval \<Rightarrow> AnimatedState \<times> world \<Rightarrow> jserror + (AnimatedState \<times> world)" where
  "frame L active timestamp sw =
     (let st = fst sw; w = snd sw in
      if isAnimationCancelled st then Inr (st\<lparr>isAnimationRunning := False\<rparr>, w)
      else
        case frame_loop L timestamp active (map fst (animations st))
               ((heap w, fired w), last_values st, animations st, [], True) of
          Inl e \<Rightarrow> Inl e
        | Inr ((h, cs), lastV, anims, updates, allFinished) \<Rightarrow>
            (let w1 = w\<lparr>heap := h, fired := cs, commits := commits w @ [Obj updates]\<rparr>;
                 st1 = st\<lparr>last_values := lastV, animations := anims\<rparr>
             in if \<not> allFinished then Inr (st1, w1\<lparr>requested := Suc (requested w1)\<rparr>)
                else Inr (st1\<lparr>isAnimationRunning := False\<rparr>, w1)))"

text \<open>
  The continuation of \<^verbatim>\<open>jestStyleUpdater\<close>: the same, but it commits \<^verbatim>\<open>updates\<close> only
  when it has a key.
\<close>

definition jest_frame ::
  "callbacks \<Rightarrow> bool \<Rightarrow> jsval \<Rightarrow> AnimatedState \<times> world \<Rightarrow> jserror + (AnimatedState \<times> world)" where
  "jest_frame L active timestamp sw =
     (let st = fst sw; w = snd sw in
      if isAnimationCancelled st then Inr (st\<lparr>isAnimationRunning := False\<rparr>, w)
      else
        case frame_loop L timestamp active (map fst (animations st))
               ((heap w, fired w), last_values st, animations st, [], True) of
          Inl e \<Rightarrow> Inl e
        | Inr ((h, cs), lastV, anims, updates, allFinished) \<Rightarrow>
            (let w1 = w\<lparr>heap := h, fired := cs,
                        commits := (if updates \<noteq> [] then commits w @ [Obj updates] else commits w)\<rparr>;
                 st1 = st\<lparr>last_values := lastV, animations := anims\<rparr>
             in if \<not> allFinished then Inr (st1, w1\<lparr>requested := Suc (requested w1)\<rparr>)
                else Inr (st1\<lparr>isAnimationRunning := False\<rparr>, w1)))"

text \<open>
  The first loop of \<^verbatim>\<open>styleUpdater\<close>, over the keys of \<^verbatim>\<open>newValues\<close>: it carries the
  heap, \<^verbatim>\<open>animations\<close> and \<^verbatim>\<open>hasAnimations\<close>.
\<close>

fun bind_loop ::
  "callbacks \<Rightarrow> jsval \<Rightarrow> jsval \<Rightarrow> props \<Rightarrow> pkey list \<Rightarrow> heap \<times> props \<times> bool
    \<Rightarrow> jserror + (heap \<times> props \<times> bool)" where
  "bind_loop L now newValues oldValues [] acc = Inr acc"
| "bind_loop L now newValues oldValues (key # keys) (h, anims, hasAnimations) =
     (let val = read_prop h newValues key in
      case isAnimated h val of
        Inl e \<Rightarrow> Inl e
      | Inr True \<Rightarrow>
          (case prepareAnimation L now h val (obj_get anims key) (obj_get oldValues key) of
             Inl e \<Rightarrow> Inl e
           | Inr h1 \<Rightarrow>
               bind_loop L now newValues oldValues keys (h1, AList.update key val anims, True))
      | Inr False \<Rightarrow>
          bind_loop L now newValues oldValues keys (h, AList.delete key anims, hasAnimations))"

text \<open>\<^verbatim>\<open>Object.assign(target, source)\<close> on the entries of the target.\<close>

definition assign :: "heap \<Rightarrow> props \<Rightarrow> jsval \<Rightarrow> props" where
  "assign h target source =
     fold (\<lambda>k t. AList.update k (read_prop h source k) t) (own_keys h source) target"

text \<open>
  The start of the loop, shared by the two updaters: when none is running, the flags
  are set and the first continuation runs at once if \<^verbatim>\<open>_frameTimestamp\<close> is truthy, and
  is requested from the scheduler if not.
\<close>

definition start_loop ::
  "(jsval \<Rightarrow> AnimatedState \<times> world \<Rightarrow> jserror + (AnimatedState \<times> world)) \<Rightarrow> jsval
    \<Rightarrow> AnimatedState \<times> world \<Rightarrow> jserror + (AnimatedState \<times> world)" where
  "start_loop continuation frameTimestamp sw =
     (let st = fst sw; w = snd sw in
      if \<not> isAnimationRunning st then
        (let st1 = st\<lparr>isAnimationCancelled := False, isAnimationRunning := True\<rparr>
         in if truthy frameTimestamp then continuation frameTimestamp (st1, w)
            else Inr (st1, w\<lparr>requested := Suc (requested w)\<rparr>))
      else Inr (st, w))"

text \<open>
  \<^verbatim>\<open>styleUpdater\<close>. \<open>produced\<close> is what \<^verbatim>\<open>updater()\<close> returned, \<open>now\<close> what
  \<^verbatim>\<open>getTimestamp()\<close> returns, \<open>frameTimestamp\<close> the global \<^verbatim>\<open>_frameTimestamp\<close>. The
  local \<^verbatim>\<open>oldValues\<close> is the object \<^verbatim>\<open>state.lastV\<close> at entry, which a continuation run
  from here writes to: after it, \<^verbatim>\<open>oldValues\<close> is read from the state it returned.
\<close>

definition styleUpdater ::
  "callbacks \<Rightarrow> bool \<Rightarrow> jsval \<Rightarrow> jsval \<Rightarrow> jsval \<Rightarrow> AnimatedState \<times> world
    \<Rightarrow> jserror + (AnimatedState \<times> world)" where
  "styleUpdater L active now frameTimestamp produced sw =
     (let st = fst sw; w = snd sw;
          newValues = (if nullish produced then Obj [] else produced);
          oldValues = last_values st
      in case bind_loop L now newValues oldValues (own_keys (heap w) newValues)
                (heap w, animations st, False) of
           Inl e \<Rightarrow> Inl e
         | Inr (h, anims, hasAnimations) \<Rightarrow>
             if hasAnimations then
               case start_loop (frame L active) frameTimestamp
                      (st\<lparr>animations := anims\<rparr>, w\<lparr>heap := h\<rparr>) of
                 Inl e \<Rightarrow> Inl e
               | Inr (st1, w1) \<Rightarrow>
                   (let oldValues1 = last_values st1;
                        st2 = st1\<lparr>last_values := assign (heap w1) (assign (heap w1) [] (Obj oldValues1)) newValues\<rparr>
                    in case getStyleWithoutAnimations (heap w1) (Obj oldValues1) of
                         Inl e \<Rightarrow> Inl e
                       | Inr style \<Rightarrow> Inr (st2, w1\<lparr>commits := commits w1 @ [Obj style]\<rparr>))
             else
               Inr (st\<lparr>isAnimationCancelled := True, animations := []\<rparr>,
                    w\<lparr>heap := h, commits := commits w @ [newValues]\<rparr>))"

text \<open>The two loops of \<^verbatim>\<open>jestStyleUpdater\<close> that extract the animated properties.\<close>

fun jest_drop_loop :: "heap \<Rightarrow> jsval \<Rightarrow> pkey list \<Rightarrow> props \<Rightarrow> jserror + props" where
  "jest_drop_loop h newValues [] anims = Inr anims"
| "jest_drop_loop h newValues (key # keys) anims =
     (case isAnimated h (read_prop h newValues key) of
        Inl e \<Rightarrow> Inl e
      | Inr True \<Rightarrow> jest_drop_loop h newValues keys anims
      | Inr False \<Rightarrow> jest_drop_loop h newValues keys (AList.delete key anims))"

fun jest_bind_loop ::
  "callbacks \<Rightarrow> jsval \<Rightarrow> jsval \<Rightarrow> props \<Rightarrow> pkey list \<Rightarrow> heap \<times> props \<times> bool
    \<Rightarrow> jserror + (heap \<times> props \<times> bool)" where
  "jest_bind_loop L now newValues oldValues [] acc = Inr acc"
| "jest_bind_loop L now newValues oldValues (key # keys) (h, anims, hasAnimations) =
     (let val = read_prop h newValues key in
      case isAnimated h val of
        Inl e \<Rightarrow> Inl e
      | Inr True \<Rightarrow>
          (case prepareAnimation L now h val (obj_get anims key) (obj_get oldValues key) of
             Inl e \<Rightarrow> Inl e
           | Inr h1 \<Rightarrow>
               jest_bind_loop L now newValues oldValues keys (h1, AList.update key val anims, True))
      | Inr False \<Rightarrow> jest_bind_loop L now newValues oldValues keys (h, anims, hasAnimations))"

text \<open>
  \<^verbatim>\<open>jestStyleUpdater\<close>; the adapters and the mirror \<^verbatim>\<open>animatedStyle\<close> belong to
  \<^verbatim>\<open>updatePropsJestWrapper\<close>, of which the model records the tree it is given.
\<close>

definition jestStyleUpdater ::
  "callbacks \<Rightarrow> (heap \<Rightarrow> jsval \<Rightarrow> string option) \<Rightarrow> bool \<Rightarrow> jsval \<Rightarrow> jsval \<Rightarrow> jsval
    \<Rightarrow> AnimatedState \<times> world \<Rightarrow> jserror + (AnimatedState \<times> world)" where
  "jestStyleUpdater L stringify active now frameTimestamp produced sw =
     (let st = fst sw; w = snd sw;
          newValues = (if nullish produced then Obj [] else produced);
          oldValues = last_values st
      in case jest_drop_loop (heap w) newValues (map fst (animations st)) (animations st) of
           Inl e \<Rightarrow> Inl e
         | Inr anims0 \<Rightarrow>
             (case jest_bind_loop L now newValues oldValues (own_keys (heap w) newValues)
                     (heap w, anims0, False) of
                Inl e \<Rightarrow> Inl e
              | Inr (h, anims, hasAnimations) \<Rightarrow>
                  (case (if hasAnimations
                         then start_loop (jest_frame L active) frameTimestamp
                                (st\<lparr>animations := anims\<rparr>, w\<lparr>heap := h\<rparr>)
                         else Inr (st\<lparr>isAnimationCancelled := True, animations := []\<rparr>,
                                   w\<lparr>heap := h\<rparr>)) of
                     Inl e \<Rightarrow> Inl e
                   | Inr (st1, w1) \<Rightarrow>
                       (let oldValues1 = last_values st1 in
                        case styleDiff stringify (heap w1) (Obj oldValues1) newValues of
                          Inl e \<Rightarrow> Inl e
                        | Inr diff \<Rightarrow>
                            Inr (st1\<lparr>last_values :=
                                       assign (heap w1) (assign (heap w1) [] (Obj oldValues1)) newValues\<rparr>,
                                 if diff \<noteq> [] then w1\<lparr>commits := commits w1 @ [Obj diff]\<rparr> else w1)))))"

text \<open>
  The local \<^verbatim>\<open>hasAnimations\<close> of \<^verbatim>\<open>styleUpdater\<close> after its first loop: whether the
  producer's result held an animated entry.
\<close>

definition hasAnimations :: "callbacks \<Rightarrow> jsval \<Rightarrow> jsval \<Rightarrow> AnimatedState \<times> world \<Rightarrow> bool" where
  "hasAnimations L now produced sw =
     (let newValues = (if nullish produced then Obj [] else produced) in
      case bind_loop L now newValues (last_values (fst sw)) (own_keys (heap (snd sw)) newValues)
             (heap (snd sw), animations (fst sw), False) of
        Inl e \<Rightarrow> False
      | Inr (h, anims, found) \<Rightarrow> found)"

text \<open>
  The binding \<^verbatim>\<open>useAnimatedStyle\<close> keeps in \<^verbatim>\<open>initRef.current\<close>: the initial style and
  the \<^verbatim>\<open>last\<close> its remote state is created with. The block of the hook guarded by
  \<^verbatim>\<open>!initRef.current\<close> runs the validation and creates the binding; \<open>initialStyle\<close> is
  what \<^verbatim>\<open>initialUpdaterRun(updater)\<close> returned.
\<close>

record AnimationRef =
  initial_value :: jsval
  remote_last :: jsval

definition useAnimatedStyle_init :: "AnimationRef option \<Rightarrow> jsval \<Rightarrow> jserror + AnimationRef" where
  "useAnimatedStyle_init current initialStyle =
     (case current of
        None \<Rightarrow>
          (case validateAnimatedStyles initialStyle of
             Inl e \<Rightarrow> Inl e
           | Inr u \<Rightarrow> Inr \<lparr>initial_value = initialStyle, remote_last = initialStyle\<rparr>)
      | Some r \<Rightarrow> Inr r)"

section \<open>Trees without null\<close>

text \<open>
  A node the walkers accept: no \<^verbatim>\<open>null\<close> in it, and no plain object that carries a
  truthy \<^verbatim>\<open>onFrame\<close> (an animation whose callbacks are missing, which the hook leaves to
  the animation definitions).
\<close>

fun null_free :: "jsval \<Rightarrow> bool"
  and null_free_items :: "jsval list \<Rightarrow> bool"
  and null_free_entries :: "props \<Rightarrow> bool" where
  "null_free Null = False"
| "null_free (Arr xs) = null_free_items xs"
| "null_free (Obj kvs) = (\<not> truthy (obj_get kvs (Name ''onFrame'')) \<and> null_free_entries kvs)"
| "null_free Undefined = True"
| "null_free (Bool b) = True"
| "null_free (Num n) = True"
| "null_free (Str s) = True"
| "null_free (Ref a) = True"
| "null_free_items [] = True"
| "null_free_items (x # xs) = (null_free x \<and> null_free_items xs)"
| "null_free_entries [] = True"
| "null_free_entries (kv # kvs) = (null_free (snd kv) \<and> null_free_entries kvs)"

text \<open>A previous value of plain data: primitives, arrays and objects, without \<^verbatim>\<open>null\<close>.\<close>

fun plain :: "jsval \<Rightarrow> bool"
  and plain_items :: "jsval list \<Rightarrow> bool"
  and plain_entries :: "props \<Rightarrow> bool" where
  "plain Null = False"
| "plain (Ref a) = False"
| "plain (Arr xs) = plain_items xs"
| "plain (Obj kvs) = plain_entries kvs"
| "plain Undefined = True"
| "plain (Bool b) = True"
| "plain (Num n) = True"
| "plain (Str s) = True"
| "plain_items [] = True"
| "plain_items (x # xs) = (plain x \<and> plain_items xs)"
| "plain_entries [] = True"
| "plain_entries (kv # kvs) = (plain (snd kv) \<and> plain_entries kvs)"

section \<open>The seed priority in the words of the specification\<close>

text \<open>
  Section 4.1 of the specification, by the kind of the previous value: (a) a holder
  exposing \<^verbatim>\<open>.value\<close> gives that value; (b) else a previous value that was a Terminal
  gives the in-flight \<^verbatim>\<open>current\<close> of the previous animation node if present, else its
  own \<^verbatim>\<open>current\<close>; (c) else a plain static previous value gives itself; (d) else the
  node's own declared \<^verbatim>\<open>current\<close>.
\<close>

definition spec_seed :: "heap \<Rightarrow> jsval \<Rightarrow> jsval \<Rightarrow> jsval \<Rightarrow> jsval" where
  "spec_seed h declared previousAnimationNode previousValue =
     (if typeof previousValue = ''object'' \<and> read_prop h previousValue (Name ''value'') \<noteq> Undefined
      then read_prop h previousValue (Name ''value'')
      else if typeof previousValue = ''object'' \<and> onFrame_defined h previousValue then
        if read_prop h previousAnimationNode (Name ''current'') \<noteq> Undefined
        then read_prop h previousAnimationNode (Name ''current'')
        else if read_prop h previousValue (Name ''current'') \<noteq> Undefined
        then read_prop h previousValue (Name ''current'')
        else declared
      else if previousValue \<noteq> Undefined \<and> typeof previousValue \<noteq> ''object'' then previousValue
      else declared)"

section \<open>Sample animations\<close>

text \<open>
  A library of animation functions for the examples: \<^verbatim>\<open>onStart\<close> sets \<^verbatim>\<open>current\<close> to
  the seed; \<^verbatim>\<open>onFrame\<close> number 0 jumps to \<^verbatim>\<open>toValue\<close> and reports completion, any other
  makes no progress and reports none. In \<open>demo_heap\<close> every address holds an animation
  from 0 to 100 as a producer returns it, not yet prepared (it has no property
  \<^verbatim>\<open>callStart\<close>), with its address as \<^verbatim>\<open>onFrame\<close> and as completion callback.
\<close>

definition demo_callbacks :: callbacks where
  "demo_callbacks =
     \<lparr>call_onStart = (\<lambda>f a seed timestamp previous h.
          h(a := (h a)\<lparr>props := AList.update (Name ''current'') seed (props (h a))\<rparr>)),
      call_onFrame = (\<lambda>f a timestamp h.
          if f = 0
          then (True, h(a := (h a)\<lparr>props :=
                  AList.update (Name ''current'') (obj_get (props (h a)) (Name ''toValue''))
                    (props (h a))\<rparr>))
          else (False, h))\<rparr>"

definition demo_heap :: heap where
  "demo_heap =
     (\<lambda>a. \<lparr>props = [(Name ''current'', Num (Fin 0)), (Name ''toValue'', Num (Fin 100))],
            onStart = 0, onFrame = a, callback = Some a, callStart = None\<rparr>)"

definition demo_world :: world where
  "demo_world = \<lparr>heap = demo_heap, fired = [], commits = [], requested = 0\<rparr>"

text \<open>
  A stand-in for \<^verbatim>\<open>JSON.stringify\<close> in the examples, none of which compares the texts of
  two different values: every value is without text.
\<close>

definition no_text :: "heap \<Rightarrow> jsval \<Rightarrow> string option" where
  "no_text h v = None"

section \<open>Properties of the dependency tracker\<close>

lemma num_strict_eq_same: "num_strict_eq x x = (x \<noteq> NaN)"
  by (cases x) auto

lemma num_strict_eq_iff:
  "num_strict_eq x y =
     (x \<noteq> NaN \<and> y \<noteq> NaN \<and> (x = y \<or> (x = NegZero \<and> y = Fin 0) \<or> (x = Fin 0 \<and> y = NegZero)))"
  by (cases x; cases y) auto

lemma is_js_num: "is_js (DNum x) (DNum y) = (x = y)"
  by (cases x; cases y) (auto simp: is_js_def)

lemma is_js_same_value: "is_js x y = (x = y)"
proof (cases x)
  case (DNum a)
  then show ?thesis
    by (cases y) (auto simp: is_js_num, auto simp: is_js_def)
qed (cases y; auto simp: is_js_def)+

lemma objectIs_same_value: "objectIs b x y = (x = y)"
  by (simp add: objectIs_def Object_is_def is_js_same_value fun_eq_iff)

lemma inputs_loop_eq: "length xs = length ys \<Longrightarrow> inputs_loop b xs ys = (xs = ys)"
  by (induction b xs ys rule: inputs_loop.induct) (auto simp: objectIs_same_value)

text \<open>
  C8. Fingerprint equality is false when either list is absent or the lengths differ;
  otherwise it compares position by position with an equality under which \<open>NaN\<close> equals
  \<open>NaN\<close> and positive zero differs from negative zero, with the builtin \<^verbatim>\<open>Object.is\<close> and
  with the fallback \<^verbatim>\<open>is\<close> alike: two values compare equal exactly when they are the
  same value (the same number, \<open>NaN\<close> and the two zeros being three numbers of their own,
  the same other primitive, or the same object), so two lists of one length are equal
  exactly when they hold the same values at every position. In particular
  \<^verbatim>\<open>[1, NaN, -0]\<close> and \<^verbatim>\<open>[1, NaN, 0]\<close> are unequal, \<^verbatim>\<open>[1, NaN]\<close> and \<^verbatim>\<open>[1, NaN]\<close> are equal.
\<close>

theorem areDependenciesEqual_spec:
  "\<not> areDependenciesEqual b None p
   \<and> \<not> areDependenciesEqual b n None
   \<and> (length xs \<noteq> length ys \<longrightarrow> \<not> areDependenciesEqual b (Some xs) (Some ys))
   \<and> (length xs = length ys \<longrightarrow>
        areDependenciesEqual b (Some xs) (Some ys) = (\<forall>i < length xs. objectIs b (xs ! i) (ys ! i)))
   \<and> (length xs = length ys \<longrightarrow> areDependenciesEqual b (Some xs) (Some ys) = (xs = ys))
   \<and> objectIs b x y = (x = y)
   \<and> objectIs b (DNum u) (DNum v) = (u = v)
   \<and> objectIs b (DNum NaN) (DNum NaN)
   \<and> \<not> objectIs b (DNum (Fin 0)) (DNum NegZero)
   \<and> \<not> objectIs b (DNum NegZero) (DNum (Fin 0))
   \<and> \<not> areDependenciesEqual b (Some [DNum (Fin 1), DNum NaN, DNum NegZero])
                                (Some [DNum (Fin 1), DNum NaN, DNum (Fin 0)])
   \<and> areDependenciesEqual b (Some [DNum (Fin 1), DNum NaN]) (Some [DNum (Fin 1), DNum NaN])"
proof -
  have absent: "\<not> areDependenciesEqual b None p" "\<not> areDependenciesEqual b n None"
    by (simp_all add: areDependenciesEqual_def areHookInputsEqual_def split: option.splits)
  have differ: "length xs \<noteq> length ys \<longrightarrow> \<not> areDependenciesEqual b (Some xs) (Some ys)"
    by (auto simp: areDependenciesEqual_def areHookInputsEqual_def)
  have same: "length xs = length ys \<longrightarrow>
      areDependenciesEqual b (Some xs) (Some ys) = (\<forall>i < length xs. objectIs b (xs ! i) (ys ! i))"
    by (auto simp: areDependenciesEqual_def areHookInputsEqual_def inputs_loop_eq
        objectIs_same_value list_eq_iff_nth_eq)
  have lists: "length xs = length ys \<longrightarrow> areDependenciesEqual b (Some xs) (Some ys) = (xs = ys)"
    by (simp add: areDependenciesEqual_def areHookInputsEqual_def inputs_loop_eq)
  have same_value: "objectIs b x y = (x = y)" "objectIs b (DNum u) (DNum v) = (u = v)"
    by (simp_all add: objectIs_same_value)
  have nums: "objectIs b (DNum NaN) (DNum NaN)" "\<not> objectIs b (DNum (Fin 0)) (DNum NegZero)"
    "\<not> objectIs b (DNum NegZero) (DNum (Fin 0))"
    by (simp_all add: objectIs_same_value)
  have ex1: "\<not> areDependenciesEqual b (Some [DNum (Fin 1), DNum NaN, DNum NegZero])
                                (Some [DNum (Fin 1), DNum NaN, DNum (Fin 0)])"
    by (simp add: areDependenciesEqual_def areHookInputsEqual_def objectIs_same_value)
  have ex2: "areDependenciesEqual b (Some [DNum (Fin 1), DNum NaN]) (Some [DNum (Fin 1), DNum NaN])"
    by (simp add: areDependenciesEqual_def areHookInputsEqual_def objectIs_same_value)
  from absent differ same lists same_value nums ex1 ex2 show ?thesis by blast
qed

theorem areDependenciesEqual_spec_witness:
  "length [DNum (Fin 1)] \<noteq> length [DNum (Fin 1), DNum (Fin 2)]
   \<and> \<not> areDependenciesEqual False (Some [DNum (Fin 1)]) (Some [DNum (Fin 1), DNum (Fin 2)])
   \<and> areDependenciesEqual False (Some [DStr ''a'', DObj 3]) (Some [DStr ''a'', DObj 3])
   \<and> areDependenciesEqual False (Some [DNum (Fin 0)]) (Some [DNum (Fin 0)])
   \<and> \<not> areDependenciesEqual False (Some [DNum (Fin 1)]) (Some [DNum (Fin 2)])"
  using areDependenciesEqual_spec [of False None None "[DNum (Fin 1)]" "[DNum (Fin 1), DNum (Fin 2)]"]
    areDependenciesEqual_spec [of False None None "[DStr ''a'', DObj 3]" "[DStr ''a'', DObj 3]"]
    areDependenciesEqual_spec [of False None None "[DNum (Fin 0)]" "[DNum (Fin 0)]"]
    areDependenciesEqual_spec [of False None None "[DNum (Fin 1)]" "[DNum (Fin 2)]"]
  by simp

lemma buildWorkletsHash_from_ok:
  "\<forall>w \<in> set ws. workletHash w \<noteq> None \<Longrightarrow>
   buildWorkletsHash_from acc ws = Inr (acc @ concat (map (\<lambda>w. toString (the (workletHash w))) ws))"
  by (induction ws arbitrary: acc) auto

text \<open>
  C10. With an explicit dependency list, \<^verbatim>\<open>buildDependencies\<close> returns the address of the
  array it was given, and the store after the call differs from the store before in
  that array alone, which is one element longer: the old elements followed by the
  aggregate hash of the defined handlers, the decimal texts of their hashes in order. The hypothesis is the contract of
  the non-null assertion in \<^verbatim>\<open>buildWorkletsHash\<close>: each defined handler carries a hash.
\<close>

theorem buildDependencies_pushes_in_place:
  assumes "\<forall>h \<in> set (map snd handlers). \<forall>w. h = Some w \<longrightarrow> workletHash w \<noteq> None"
  shows "buildDependencies (Some a) handlers s =
           Inr (a, s\<lparr>arrays := (arrays s)(a := arrays s a @
             [DStr (concat (map (\<lambda>w. toString (the (workletHash w)))
                (map the (filter (\<lambda>h. h \<noteq> None) (map snd handlers)))))])\<rparr>)"
proof -
  let ?hl = "map the (filter (\<lambda>h. h \<noteq> None) (map snd handlers))"
  have "\<forall>w \<in> set ?hl. workletHash w \<noteq> None"
    using assms by auto
  then have "buildWorkletsHash ?hl = Inr (concat (map (\<lambda>w. toString (the (workletHash w))) ?hl))"
    using buildWorkletsHash_from_ok [of ?hl "[]"] by (simp add: buildWorkletsHash_def)
  then show ?thesis
    by (simp add: buildDependencies_def)
qed

theorem buildDependencies_pushes_in_place_witness:
  "buildDependencies (Some 0)
     [(''onStart'', Some \<lparr>workletHash = Some 12, closure = DUndefined\<rparr>),
      (''onActive'', None),
      (''onEnd'', Some \<lparr>workletHash = Some 345, closure = DNull\<rparr>)]
     \<lparr>arrays = (\<lambda>_. [DNum (Fin 7)]), infos = (\<lambda>_. (None, DUndefined)), fresh = 1\<rparr>
   = Inr (0, \<lparr>arrays = (\<lambda>_. [DNum (Fin 7)])(0 := [DNum (Fin 7), DStr ''12345'']),
              infos = (\<lambda>_. (None, DUndefined)), fresh = 1\<rparr>)"
  using buildDependencies_pushes_in_place [of
      "[(''onStart'', Some \<lparr>workletHash = Some 12, closure = DUndefined\<rparr>),
        (''onActive'', None),
        (''onEnd'', Some \<lparr>workletHash = Some 345, closure = DNull\<rparr>)]"
      0 "\<lparr>arrays = (\<lambda>_. [DNum (Fin 7)]), infos = (\<lambda>_. (None, DUndefined)), fresh = 1\<rparr>"]
  by (simp add: toString.simps)

section \<open>Properties of the style differ\<close>

lemma removed_keys_none:
  "\<forall>k \<in> set keys. obj_get ns k \<noteq> Undefined \<Longrightarrow>
   removed_keys h (Obj ns) keys diff = Inr diff"
  by (induction keys arbitrary: diff) (auto simp: get_prop_def nullish_def)

lemma changed_keys_none:
  "\<forall>k \<in> set keys. isAnimated h (obj_get ns k) = Inr True
      \<or> (isAnimated h (obj_get ns k) = Inr False
          \<and> (val_strict_eq (obj_get os k) (obj_get ns k)
              \<or> stringify h (obj_get os k) = stringify h (obj_get ns k))) \<Longrightarrow>
   changed_keys stringify h (Obj os) (Obj ns) keys diff = Inr diff"
  by (induction keys arbitrary: diff) (auto simp: get_prop_def nullish_def)

text \<open>
  The diff of a tree with itself is not always empty: for \<^verbatim>\<open>{width: undefined}\<close> the
  first loop of \<^verbatim>\<open>styleDiff\<close> finds \<^verbatim>\<open>newStyle[key] === undefined\<close> and emits the removal
  marker.
\<close>

theorem styleDiff_same_tree_counterexample:
  "styleDiff no_text demo_heap
     (Obj [(Name ''width'', Undefined)]) (Obj [(Name ''width'', Undefined)])
   = Inr [(Name ''width'', Null)]"
  by (simp add: styleDiff_def nullish_def get_prop_def obj_get_def)

text \<open>
  C9, amended. For every property tree \<open>T\<close> none of whose values is \<^verbatim>\<open>undefined\<close> and on
  whose values \<^verbatim>\<open>isAnimated\<close> does not raise, \<^verbatim>\<open>styleDiff(T, T)\<close> is the empty tree. More
  generally, for two trees with the same key set, where every value of the new tree is
  defined and is either animated, or not animated and then strictly equal (\<^verbatim>\<open>===\<close>) to
  the old value at its key or of the same JSON text as it, \<^verbatim>\<open>styleDiff\<close> yields no
  entries, whatever the old values at the animated keys are. The JSON text is what the
  code compares: two deep-equal values have the same text when their nested maps list
  their keys in the same order, and \<^verbatim>\<open>JSON.stringify\<close> is any function.
\<close>

theorem styleDiff_no_entries:
  "((\<forall>k \<in> set (map fst T). obj_get T k \<noteq> Undefined \<and> (\<exists>b. isAnimated h (obj_get T k) = Inr b))
      \<longrightarrow> styleDiff stringify h (Obj T) (Obj T) = Inr [])
   \<and> (set (map fst os) = set (map fst ns)
      \<and> (\<forall>k \<in> set (map fst ns). obj_get ns k \<noteq> Undefined)
      \<and> (\<forall>k \<in> set (map fst ns). isAnimated h (obj_get ns k) = Inr True
            \<or> (isAnimated h (obj_get ns k) = Inr False
                \<and> (val_strict_eq (obj_get os k) (obj_get ns k)
                    \<or> stringify h (obj_get os k) = stringify h (obj_get ns k))))
      \<longrightarrow> styleDiff stringify h (Obj os) (Obj ns) = Inr [])"
proof -
  have general: "styleDiff stringify h (Obj os') (Obj ns') = Inr []"
    if "set (map fst os') = set (map fst ns')"
      and "\<forall>k \<in> set (map fst ns'). obj_get ns' k \<noteq> Undefined"
      and "\<forall>k \<in> set (map fst ns'). isAnimated h (obj_get ns' k) = Inr True
            \<or> (isAnimated h (obj_get ns' k) = Inr False
                \<and> (val_strict_eq (obj_get os' k) (obj_get ns' k)
                    \<or> stringify h (obj_get os' k) = stringify h (obj_get ns' k)))"
    for os' ns'
    using that by (simp add: styleDiff_def nullish_def removed_keys_none changed_keys_none)
  have same: "styleDiff stringify h (Obj T) (Obj T) = Inr []"
    if "\<forall>k \<in> set (map fst T). obj_get T k \<noteq> Undefined \<and> (\<exists>b. isAnimated h (obj_get T k) = Inr b)"
  proof (rule general)
    show "set (map fst T) = set (map fst T)" ..
    show "\<forall>k \<in> set (map fst T). obj_get T k \<noteq> Undefined" using that by blast
    show "\<forall>k \<in> set (map fst T). isAnimated h (obj_get T k) = Inr True
            \<or> (isAnimated h (obj_get T k) = Inr False
                \<and> (val_strict_eq (obj_get T k) (obj_get T k)
                    \<or> stringify h (obj_get T k) = stringify h (obj_get T k)))"
      using that by (metis (full_types))
  qed
  from general same show ?thesis by blast
qed

theorem styleDiff_no_entries_witness:
  "styleDiff no_text demo_heap
     (Obj [(Name ''transform'', Arr [Obj [(Name ''scale'', Num (Fin 2))]]), (Name ''opacity'', Ref 0)])
     (Obj [(Name ''transform'', Arr [Obj [(Name ''scale'', Num (Fin 2))]]), (Name ''opacity'', Ref 0)])
     = Inr []
   \<and> styleDiff no_text demo_heap
     (Obj [(Name ''width'', Num (Fin 50)), (Name ''opacity'', Ref 0)])
     (Obj [(Name ''opacity'', Ref 1), (Name ''width'', Num (Fin 50))]) = Inr []"
  using styleDiff_no_entries [of
      "[(Name ''transform'', Arr [Obj [(Name ''scale'', Num (Fin 2))]]), (Name ''opacity'', Ref 0)]"
      demo_heap no_text
      "[(Name ''width'', Num (Fin 50)), (Name ''opacity'', Ref 0)]"
      "[(Name ''opacity'', Ref 1), (Name ''width'', Num (Fin 50))]"]
  by (auto simp: obj_get_def nullish_def)

text \<open>
  Deep equality alone is not enough: two nested maps with the same entries in another
  order are deep-equal, and wherever \<^verbatim>\<open>JSON.stringify\<close> gives them different texts (as it
  does, writing the keys in their order) \<^verbatim>\<open>styleDiff\<close> reports the new one.
\<close>

lemma styleDiff_nested_key_order:
  assumes "stringify h (Obj [(Name ''width'', Num (Fin 1)), (Name ''height'', Num (Fin 2))])
         \<noteq> stringify h (Obj [(Name ''height'', Num (Fin 2)), (Name ''width'', Num (Fin 1))])"
  shows "styleDiff stringify h
      (Obj [(Name ''shadowOffset'', Obj [(Name ''width'', Num (Fin 1)), (Name ''height'', Num (Fin 2))])])
      (Obj [(Name ''shadowOffset'', Obj [(Name ''height'', Num (Fin 2)), (Name ''width'', Num (Fin 1))])])
    = Inr [(Name ''shadowOffset'', Obj [(Name ''height'', Num (Fin 2)), (Name ''width'', Num (Fin 1))])]"
  using assms by (simp add: styleDiff_def nullish_def get_prop_def obj_get_def)

text \<open>
  An animation object as an element of an array: \<^verbatim>\<open>isAnimated\<close> reads \<^verbatim>\<open>onFrame\<close> of each
  of its members and raises at the first that is \<^verbatim>\<open>null\<close> or \<^verbatim>\<open>undefined\<close>. A fresh
  animation whose \<^verbatim>\<open>callback\<close> is a function has no such member; one whose definition
  listed \<^verbatim>\<open>callback: undefined\<close> has, and so has every animation that was prepared, in
  its \<^verbatim>\<open>callStart: null\<close>.
\<close>

lemma isAnimated_animation_in_array:
  "isAnimated demo_heap (Arr [Ref 2]) = Inr False
   \<and> isAnimated
       (demo_heap(2 := (demo_heap 2)\<lparr>props := props (demo_heap 2) @ [(Name ''callback'', Undefined)],
                                    callback := None\<rparr>))
       (Arr [Ref 2]) = Inl TypeError
   \<and> (case prepareAnimation demo_callbacks (Num (Fin 5)) demo_heap (Ref 2) Undefined Undefined of
        Inl e \<Rightarrow> Inl e
      | Inr h \<Rightarrow> isAnimated h (Arr [Ref 2])) = Inl TypeError"
  by (simp add: demo_heap_def demo_callbacks_def seed_value_def run_callStart_def
      list_callStart_def obj_get_def nullish_def)

section \<open>Properties of the validation\<close>

lemma styleUpdater_primitive:
  "typeof produced = ''number'' \<or> typeof produced = ''boolean'' \<Longrightarrow>
   styleUpdater L active now frameTimestamp produced (st, w) =
     Inr (st\<lparr>isAnimationCancelled := True, animations := []\<rparr>,
          w\<lparr>commits := commits w @ [produced]\<rparr>)"
  by (cases produced) (auto simp: styleUpdater_def nullish_def)

text \<open>
  A producer that returns a sequence is refused by \<^verbatim>\<open>validateAnimatedStyles\<close>, but once
  the binding exists neither the hook nor the updater calls it: the hook keeps the
  binding, and \<^verbatim>\<open>styleUpdater\<close> commits the sequence as it is.
\<close>

theorem validation_not_repeated_counterexample:
  "isl (validateAnimatedStyles (Arr [Obj [(Name ''width'', Num (Fin 50))]]))
   \<and> useAnimatedStyle_init
        (Some \<lparr>initial_value = Obj [], remote_last = Obj []\<rparr>)
        (Arr [Obj [(Name ''width'', Num (Fin 50))]])
      = Inr \<lparr>initial_value = Obj [], remote_last = Obj []\<rparr>
   \<and> styleUpdater demo_callbacks True (Num (Fin 5)) Undefined
        (Arr [Obj [(Name ''width'', Num (Fin 50))]])
        (\<lparr>last_values = [], animations = [], isAnimationRunning = False,
          isAnimationCancelled = False\<rparr>, demo_world)
      = Inr (\<lparr>last_values = [], animations = [], isAnimationRunning = False,
               isAnimationCancelled = True\<rparr>,
             demo_world\<lparr>commits := [Arr [Obj [(Name ''width'', Num (Fin 50))]]]\<rparr>)"
  by (simp add: validateAnimatedStyles_def useAnimatedStyle_init_def styleUpdater_def
      nullish_def obj_get_def demo_world_def)

text \<open>
  C6, amended. \<^verbatim>\<open>validateAnimatedStyles\<close> accepts a result other than \<^verbatim>\<open>null\<close> exactly
  when its \<^verbatim>\<open>typeof\<close> is \<^verbatim>\<open>'object'\<close> and it is not an array, and raises an \<^verbatim>\<open>Error\<close> when
  it does not accept. The hook calls it when it creates the binding, where the error
  surfaces; a later render with the binding in place does not validate, and a re-run of
  the producer by \<^verbatim>\<open>styleUpdater\<close> does not either: a number or a boolean is committed as
  it is.
\<close>

theorem validation_at_first_bind_only:
  "(v \<noteq> Null \<longrightarrow>
        (validateAnimatedStyles v = Inr () \<longleftrightarrow> typeof v = ''object'' \<and> \<not> isArray v))
   \<and> (validateAnimatedStyles v \<noteq> Inr () \<longrightarrow>
        (\<exists>msg. validateAnimatedStyles v = Inl (Error msg)
          \<and> useAnimatedStyle_init None v = Inl (Error msg)))
   \<and> (validateAnimatedStyles v = Inr () \<longrightarrow>
        useAnimatedStyle_init None v = Inr \<lparr>initial_value = v, remote_last = v\<rparr>)
   \<and> useAnimatedStyle_init (Some r) v = Inr r
   \<and> (typeof produced = ''number'' \<or> typeof produced = ''boolean'' \<longrightarrow>
        styleUpdater L active now frameTimestamp produced (st, w) =
          Inr (st\<lparr>isAnimationCancelled := True, animations := []\<rparr>,
               w\<lparr>commits := commits w @ [produced]\<rparr>))"
  using styleUpdater_primitive [of produced L active now frameTimestamp st w]
  by (auto simp: validateAnimatedStyles_def useAnimatedStyle_init_def)

theorem validation_at_first_bind_only_witness:
  "validateAnimatedStyles (Num (Fin 5)) \<noteq> Inr ()
   \<and> isl (useAnimatedStyle_init None (Num (Fin 5)))
   \<and> validateAnimatedStyles (Obj [(Name ''width'', Num (Fin 50))]) = Inr ()
   \<and> useAnimatedStyle_init None (Obj [(Name ''width'', Num (Fin 50))])
      = Inr \<lparr>initial_value = Obj [(Name ''width'', Num (Fin 50))],
              remote_last = Obj [(Name ''width'', Num (Fin 50))]\<rparr>
   \<and> typeof (Num (Fin 5)) = ''number''
   \<and> styleUpdater demo_callbacks True (Num (Fin 0)) Undefined (Num (Fin 5))
        (\<lparr>last_values = [], animations = [], isAnimationRunning = False,
          isAnimationCancelled = False\<rparr>, demo_world)
      = Inr (\<lparr>last_values = [], animations = [], isAnimationRunning = False,
               isAnimationCancelled = True\<rparr>,
             demo_world\<lparr>commits := [Num (Fin 5)]\<rparr>)"
  using validation_at_first_bind_only [of "Num (Fin 5)"
      "\<lparr>initial_value = Obj [], remote_last = Obj []\<rparr>" "Num (Fin 5)"
      demo_callbacks True "Num (Fin 0)" Undefined
      "\<lparr>last_values = [], animations = [], isAnimationRunning = False, isAnimationCancelled = False\<rparr>"
      demo_world]
    validation_at_first_bind_only [of "Obj [(Name ''width'', Num (Fin 50))]"
      "\<lparr>initial_value = Obj [], remote_last = Obj []\<rparr>" "Num (Fin 5)"
      demo_callbacks True "Num (Fin 0)" Undefined
      "\<lparr>last_values = [], animations = [], isAnimationRunning = False, isAnimationCancelled = False\<rparr>"
      demo_world]
  by (auto simp: demo_world_def)

section \<open>Properties of the tree walker\<close>

lemma seed_value_spec:
  "lastValue \<noteq> Null \<Longrightarrow>
   seed_value h cur lastAnimation lastValue = Inr (spec_seed h cur lastAnimation lastValue)"
  by (cases lastValue) (auto simp: seed_value_def spec_seed_def get_prop_def nullish_def)

text \<open>
  An animation prepared against a previous animation whose \<^verbatim>\<open>current\<close> is 40 and a
  previous value that is the plain number 7 is seeded with 7: a plain previous value is
  taken before the previous animation is looked at.
\<close>

theorem prepare_seed_counterexample:
  "prepareAnimation demo_callbacks (Num (Fin 5))
     (demo_heap(1 := (demo_heap 1)\<lparr>props :=
        [(Name ''current'', Num (Fin 40)), (Name ''toValue'', Num (Fin 100))]\<rparr>))
     (Ref 2) (Ref 1) (Num (Fin 7))
   = Inr ((demo_heap(1 := (demo_heap 1)\<lparr>props :=
             [(Name ''current'', Num (Fin 40)), (Name ''toValue'', Num (Fin 100))]\<rparr>))
            (2 := (demo_heap 2)\<lparr>props :=
             [(Name ''current'', Num (Fin 7)), (Name ''toValue'', Num (Fin 100)),
              (Name ''callStart'', Null)]\<rparr>))"
  by (simp add: seed_value_def run_callStart_def list_callStart_def demo_callbacks_def
      demo_heap_def obj_get_def get_prop_def nullish_def fun_eq_iff)

text \<open>
  C5, amended. For every animation object prepared with a previous value other than
  \<^verbatim>\<open>null\<close>, the seed is the one of the specification's priority by the kind of the
  previous value: the \<^verbatim>\<open>.value\<close> of a holder; else, for a previous value that is itself
  an animation, the \<^verbatim>\<open>current\<close> of the previous animation node if defined, else its own
  \<^verbatim>\<open>current\<close> if defined; else a plain previous value itself; else the node's declared
  \<^verbatim>\<open>current\<close>. That seed is what \<^verbatim>\<open>onStart\<close> is called with, once, before \<^verbatim>\<open>callStart\<close> is
  cleared. In particular, when the previous value is an animation without \<^verbatim>\<open>.value\<close> and
  the previous animation node has a \<^verbatim>\<open>current\<close>, the seed is that in-flight \<^verbatim>\<open>current\<close>.
\<close>

theorem prepare_seed_priority:
  assumes "lastValue \<noteq> Null"
  shows "seed_value h cur lastAnimation lastValue = Inr (spec_seed h cur lastAnimation lastValue)
    \<and> prepareAnimation L now h (Ref a) lastAnimation lastValue =
        Inr (run_callStart L a
               (spec_seed h (read_prop h (Ref a) (Name ''current'')) lastAnimation lastValue)
               now lastAnimation
               (h(a := (h a)\<lparr>callStart :=
                   Some (spec_seed h (read_prop h (Ref a) (Name ''current'')) lastAnimation lastValue,
                         lastAnimation)\<rparr>)))
    \<and> (typeof lastValue = ''object'' \<and> read_prop h lastValue (Name ''value'') = Undefined
         \<and> onFrame_defined h lastValue \<and> read_prop h lastAnimation (Name ''current'') \<noteq> Undefined
       \<longrightarrow> spec_seed h cur lastAnimation lastValue = read_prop h lastAnimation (Name ''current''))"
  using assms by (simp add: seed_value_spec spec_seed_def)

theorem prepare_seed_priority_witness:
  "Ref 1 \<noteq> Null
   \<and> seed_value
       (demo_heap(1 := (demo_heap 1)\<lparr>props :=
          [(Name ''current'', Num (Fin 40)), (Name ''toValue'', Num (Fin 100))]\<rparr>))
       (Num (Fin 0)) (Ref 1) (Ref 1) = Inr (Num (Fin 40))"
  using prepare_seed_priority [of "Ref 1"
      "demo_heap(1 := (demo_heap 1)\<lparr>props :=
         [(Name ''current'', Num (Fin 40)), (Name ''toValue'', Num (Fin 100))]\<rparr>)"
      "Num (Fin 0)" "Ref 1" demo_callbacks "Num (Fin 5)" 2]
  by (simp add: spec_seed_def obj_get_def)

text \<open>
  C7. The walker raises where a tree holds \<^verbatim>\<open>null\<close>: \<^verbatim>\<open>prepareAnimation\<close> on an
  animation whose previous value is \<^verbatim>\<open>null\<close> (directly, or at the same key of a previous
  object), and \<^verbatim>\<open>prepareAnimation\<close> and \<^verbatim>\<open>runAnimations\<close> on a node that is \<^verbatim>\<open>null\<close>.
\<close>

theorem walker_raises_on_null:
  "prepareAnimation L now h (Ref a) lastAnimation Null = Inl TypeError
   \<and> prepareAnimation L now h (Obj [(Name ''translateX'', Ref a)]) lastAnimation
        (Obj [(Name ''translateX'', Null)]) = Inl TypeError
   \<and> prepareAnimation L now h Null lastAnimation lastValue = Inl TypeError
   \<and> runAnimations L timestamp True s Null = Inl TypeError"
  by (simp add: seed_value_def get_prop_def nullish_def and_index_def obj_get_def)

text \<open>
  Without \<^verbatim>\<open>null\<close> the walkers do not raise, whatever the shapes of the node, of the
  previous animation and of a previous value of plain data; both are structural
  recursions on the node, so they terminate on every input.
\<close>

lemma plain_items_nth: "plain_items xs \<Longrightarrow> i < length xs \<Longrightarrow> plain (xs ! i)"
  by (induction xs arbitrary: i) (auto simp: nth_Cons split: nat.splits)

lemma plain_entries_get: "plain_entries kvs \<Longrightarrow> plain (obj_get kvs k)"
  by (induction kvs) (auto simp: obj_get_def)

lemma plain_and_index: "plain v \<Longrightarrow> plain (and_index h v k)"
  by (cases v; cases k) (auto simp: and_index_def plain_items_nth plain_entries_get)

lemma seed_value_plain: "plain lv \<Longrightarrow> \<exists>seed. seed_value h cur la lv = Inr seed"
  by (cases lv) (auto simp: seed_value_def get_prop_def nullish_def)

lemma prepare_total:
  "null_free v \<Longrightarrow> plain lv \<Longrightarrow> \<exists>h'. prepareAnimation L now h v la lv = Inr h'"
  "null_free_items xs \<Longrightarrow> plain lv \<Longrightarrow> \<exists>h'. prepare_items L now h i xs la lv = Inr h'"
  "null_free_entries kvs \<Longrightarrow> plain lv \<Longrightarrow> \<exists>h'. prepare_entries L now h kvs la lv = Inr h'"
proof (induction L now h v la lv and L now h i xs la lv and L now h kvs la lv
    rule: prepareAnimation_prepare_items_prepare_entries.induct)
  case (1 L now h xs lastAnimation lastValue)
  then obtain h1 where a: "prepare_items L now h 0 xs lastAnimation lastValue = Inr h1"
    by auto
  with 1 obtain h2 where "prepare_items L now h1 0 xs lastAnimation lastValue = Inr h2"
    by auto
  with a show ?case by simp
next
  case (2 L now h a lastAnimation lastValue)
  then show ?case
    using seed_value_plain [of lastValue h "read_prop h (Ref a) (Name ''current'')" lastAnimation]
    by auto
next
  case (10 L now h i x xs lastAnimation lastValue)
  have p: "plain (and_index h lastValue (Idx i))"
    using "10.prems" by (simp add: plain_and_index)
  from "10.IH"(1) [OF _ p] "10.prems" obtain h1 where
    a: "prepareAnimation L now h x (and_index h lastAnimation (Idx i)) (and_index h lastValue (Idx i)) = Inr h1"
    by auto
  from "10.IH"(2) [OF a] "10.prems" obtain h2 where
    "prepare_items L now h1 (Suc i) xs lastAnimation lastValue = Inr h2"
    by auto
  with a show ?case by simp
next
  case (12 L now h kv kvs lastAnimation lastValue)
  have p: "plain (and_index h lastValue (fst kv))"
    using "12.prems" by (simp add: plain_and_index)
  from "12.IH"(1) [OF _ p] "12.prems" obtain h1 where
    a: "prepareAnimation L now h (snd kv) (and_index h lastAnimation (fst kv)) (and_index h lastValue (fst kv)) = Inr h1"
    by auto
  from "12.IH"(2) [OF a] "12.prems" obtain h2 where
    "prepare_entries L now h1 kvs lastAnimation lastValue = Inr h2"
    by auto
  with a show ?case by simp
qed auto

lemma run_total:
  "null_free v \<Longrightarrow> \<exists>r. runAnimations L ts act s v = Inr r"
  "null_free_items xs \<Longrightarrow> \<exists>r. run_items L ts act s xs = Inr r"
  "null_free_entries kvs \<Longrightarrow> \<exists>r. run_entries L ts act s kvs = Inr r"
proof (induction L ts act s v and L ts act s xs and L ts act s kvs
    rule: runAnimations_run_items_run_entries.induct)
  case (2 L timestamp active s a)
  then show ?case by (auto split: prod.splits)
next
  case (10 L timestamp active s x xs)
  then obtain f s1 r where a: "runAnimations L timestamp active s x = Inr (f, s1, r)"
    by (metis null_free_items.simps(2) prod_cases3)
  with 10 obtain f2 s2 rs where "run_items L timestamp active s1 xs = Inr (f2, s2, rs)"
    by (metis null_free_items.simps(2) prod_cases3)
  with a show ?case by simp
next
  case (12 L timestamp active s kv kvs)
  then obtain f s1 r where a: "runAnimations L timestamp active s (snd kv) = Inr (f, s1, r)"
    by (metis null_free_entries.simps(2) prod_cases3)
  with 12 obtain f2 s2 rs where "run_entries L timestamp active s1 kvs = Inr (f2, s2, rs)"
    by (metis null_free_entries.simps(2) prod_cases3)
  with a show ?case by simp
qed (auto split: sum.splits)

section \<open>Properties of the style updater\<close>

lemma runAnimations_inactive: "runAnimations L timestamp False s v = Inr (True, s, None)"
  by (cases v) simp_all

lemma frame_loop_inactive:
  "frame_loop L timestamp False keys (s, lastV, anims, updates, allFinished) =
     Inr (s, fold (\<lambda>k. AList.update k (obj_get updates k)) keys lastV,
          fold AList.delete keys anims, updates, allFinished)"
  by (induction keys arbitrary: lastV anims) (simp_all add: runAnimations_inactive)

lemma delete_all_keys: "set (map fst al) \<subseteq> set ks \<Longrightarrow> fold AList.delete ks al = []"
proof (induction ks arbitrary: al)
  case Nil
  then show ?case by simp
next
  case (Cons k ks)
  have "set (map fst (AList.delete k al)) \<subseteq> set ks"
    using Cons.prems by (auto simp: AList.delete_eq)
  then show ?case using Cons.IH by simp
qed

text \<open>
  With the flag false, a continuation takes the one entry of \<^verbatim>\<open>animations\<close> for
  finished: it deletes it and overwrites \<^verbatim>\<open>last.opacity\<close> with \<^verbatim>\<open>undefined\<close>.
\<close>

theorem suspended_frame_counterexample:
  "frame demo_callbacks False (Num (Fin 16))
     (\<lparr>last_values = [(Name ''opacity'', Ref 1)], animations = [(Name ''opacity'', Ref 1)],
       isAnimationRunning = True, isAnimationCancelled = False\<rparr>, demo_world)
   = Inr (\<lparr>last_values = [(Name ''opacity'', Undefined)], animations = [],
            isAnimationRunning = False, isAnimationCancelled = False\<rparr>,
          demo_world\<lparr>commits := [Obj []]\<rparr>)"
  by (simp add: frame_def obj_get_def demo_world_def)

text \<open>
  C2, amended. For every animation tree and timestamp, \<^verbatim>\<open>runAnimations\<close> with the active
  flag false returns \<^verbatim>\<open>true\<close>, leaves the heap (every animation's \<^verbatim>\<open>current\<close>,
  \<^verbatim>\<open>finished\<close>, \<^verbatim>\<open>timestamp\<close> and \<^verbatim>\<open>callStart\<close>) as it was, calls no completion callback
  and writes no result. A continuation that runs while the flag is false and the state
  is not cancelled therefore takes every entry of \<^verbatim>\<open>animations\<close> for finished: it empties
  \<^verbatim>\<open>animations\<close>, sets \<^verbatim>\<open>last[key]\<close> to \<^verbatim>\<open>undefined\<close> for each of its keys, commits an empty
  update, requests no further frame and clears the running flag; the animation objects
  themselves are untouched.
\<close>

theorem suspended_step_and_frame:
  "runAnimations L timestamp False s v = Inr (True, s, None)
   \<and> (\<not> isAnimationCancelled st \<longrightarrow>
        frame L False timestamp (st, w) =
          Inr (st\<lparr>last_values :=
                    fold (\<lambda>k. AList.update k Undefined) (map fst (animations st)) (last_values st),
                  animations := [], isAnimationRunning := False\<rparr>,
               w\<lparr>commits := commits w @ [Obj []]\<rparr>))"
  by (simp add: runAnimations_inactive frame_def frame_loop_inactive delete_all_keys obj_get_def)

theorem suspended_step_and_frame_witness:
  "runAnimations demo_callbacks (Num (Fin 16)) False (demo_heap, []) (Ref 1)
     = Inr (True, (demo_heap, []), None)
   \<and> frame demo_callbacks False (Num (Fin 16))
       (\<lparr>last_values = [(Name ''width'', Num (Fin 50))], animations = [(Name ''opacity'', Ref 1)],
         isAnimationRunning = True, isAnimationCancelled = False\<rparr>, demo_world)
     = Inr (\<lparr>last_values = [(Name ''width'', Num (Fin 50)), (Name ''opacity'', Undefined)],
              animations = [], isAnimationRunning = False, isAnimationCancelled = False\<rparr>,
            demo_world\<lparr>commits := [Obj []]\<rparr>)"
  using suspended_step_and_frame [of demo_callbacks "Num (Fin 16)" "(demo_heap, [])" "Ref 1"
      "\<lparr>last_values = [(Name ''width'', Num (Fin 50))], animations = [(Name ''opacity'', Ref 1)],
         isAnimationRunning = True, isAnimationCancelled = False\<rparr>" demo_world]
  by (simp add: demo_world_def)

lemma set_update_subset: "set (AList.update k v al) \<subseteq> insert (k, v) (set al)"
  by (induction al) auto

lemma static_keys_static:
  "static_keys h v keys diff = Inr style \<Longrightarrow>
   \<forall>kv \<in> set diff. isAnimated h (snd kv) = Inr False \<Longrightarrow>
   \<forall>kv \<in> set style. isAnimated h (snd kv) = Inr False"
proof (induction keys arbitrary: diff)
  case Nil
  then show ?case by simp
next
  case (Cons key keys)
  show ?case
  proof (cases "isAnimated h (read_prop h v key)")
    case (Inl e)
    with Cons.prems show ?thesis by simp
  next
    case (Inr b)
    show ?thesis
    proof (cases b)
      case True
      with Inr Cons show ?thesis by simp
    next
      case False
      let ?diff = "AList.update key (read_prop h v key) diff"
      have "\<forall>kv \<in> set ?diff. isAnimated h (snd kv) = Inr False"
        using set_update_subset [of key "read_prop h v key" diff] Cons.prems(2) Inr False
        by auto
      moreover have "static_keys h v keys ?diff = Inr style"
        using Cons.prems(1) Inr False by simp
      ultimately show ?thesis by (rule Cons.IH [rotated])
    qed
  qed
qed

lemma getStyleWithoutAnimations_static:
  "getStyleWithoutAnimations h v = Inr style \<Longrightarrow>
   \<forall>kv \<in> set style. isAnimated h (snd kv) = Inr False"
  unfolding getStyleWithoutAnimations_def by (erule static_keys_static) simp

lemma frame_commits:
  assumes "frame L active timestamp (st, w) = Inr (st', w')" and "\<not> isAnimationCancelled st"
  shows "\<exists>updates. commits w' = commits w @ [Obj updates]"
  using assms by (auto simp: frame_def Let_def split: sum.splits prod.splits if_splits)

lemmas eval_updater = styleUpdater_def jestStyleUpdater_def start_loop_def frame_def jest_frame_def
  nullish_def obj_get_def getStyleWithoutAnimations_def assign_def seed_value_def run_callStart_def
  list_callStart_def step_animation_def get_prop_def styleDiff_def demo_callbacks_def demo_heap_def demo_world_def
  written_def hasAnimations_def

text \<open>
  With a frame timestamp at hand and no loop running, the first continuation runs inside
  the updater and commits the animated \<^verbatim>\<open>opacity\<close> (and requests the next frame) before
  the updater commits the static \<^verbatim>\<open>width\<close>.
\<close>

theorem first_commit_counterexample:
  "map_sum id (\<lambda>sw. (commits (snd sw), requested (snd sw)))
     (styleUpdater demo_callbacks True (Num (Fin 5)) (Num (Fin 16))
        (Obj [(Name ''opacity'', Ref 1)])
        (\<lparr>last_values = [(Name ''width'', Num (Fin 50))], animations = [],
          isAnimationRunning = False, isAnimationCancelled = False\<rparr>, demo_world))
   = Inr ([Obj [(Name ''opacity'', Num (Fin 0))], Obj [(Name ''width'', Num (Fin 50))]], 1)"
  by (simp add: eval_updater)

text \<open>
  C1, amended. In the incremental strategy, when the producer's result holds an animated
  entry and the updater returns, the updater makes exactly one commit of its own, as
  its last action, and the committed tree holds no animated entry. When a loop is
  already running or no frame timestamp is at hand, that commit is the only one and no
  continuation has run before it (no completion callback was called; a frame is
  requested if none was running). When no loop is running and a frame timestamp is at
  hand, the first continuation runs before it and commits its updates first.
\<close>

theorem styleUpdater_static_commit:
  assumes ret: "styleUpdater L active now frameTimestamp produced (st, w) = Inr (st', w')"
    and has: "hasAnimations L now produced (st, w)"
  shows "\<exists>style. (\<forall>kv \<in> set style. isAnimated (heap w') (snd kv) = Inr False)
     \<and> (if \<not> isAnimationRunning st \<and> truthy frameTimestamp
        then \<exists>updates. commits w' = commits w @ [Obj updates, Obj style]
        else commits w' = commits w @ [Obj style] \<and> fired w' = fired w
             \<and> requested w' = (if isAnimationRunning st then requested w else Suc (requested w)))"
proof -
  let ?new = "if nullish produced then Obj [] else produced"
  obtain h anims where loop:
    "bind_loop L now ?new (last_values st) (own_keys (heap w) ?new) (heap w, animations st, False)
       = Inr (h, anims, True)"
    using has by (auto simp: hasAnimations_def Let_def split: sum.splits)
  let ?sw = "(st\<lparr>animations := anims\<rparr>, w\<lparr>heap := h\<rparr>)"
  obtain st1 w1 where started: "start_loop (frame L active) frameTimestamp ?sw = Inr (st1, w1)"
    using ret loop by (auto simp: styleUpdater_def Let_def split: sum.splits)
  obtain style where style: "getStyleWithoutAnimations (heap w1) (Obj (last_values st1)) = Inr style"
    and w': "w' = w1\<lparr>commits := commits w1 @ [Obj style]\<rparr>"
    using ret loop started by (auto simp: styleUpdater_def Let_def split: sum.splits)
  have static: "\<forall>kv \<in> set style. isAnimated (heap w') (snd kv) = Inr False"
    using getStyleWithoutAnimations_static [OF style] w' by simp
  show ?thesis
  proof (cases "\<not> isAnimationRunning st \<and> truthy frameTimestamp")
    case True
    then have "frame L active frameTimestamp
        (st\<lparr>animations := anims, isAnimationCancelled := False, isAnimationRunning := True\<rparr>,
         w\<lparr>heap := h\<rparr>) = Inr (st1, w1)"
      using started by (simp add: start_loop_def)
    then obtain updates where "commits w1 = commits w @ [Obj updates]"
      using frame_commits by fastforce
    then have "commits w' = commits w @ [Obj updates, Obj style]"
      using w' by simp
    with True static show ?thesis by auto
  next
    case False
    then have "w1 = (if isAnimationRunning st then w\<lparr>heap := h\<rparr>
                     else w\<lparr>heap := h, requested := Suc (requested w)\<rparr>)"
      using started by (auto simp: start_loop_def Let_def split: if_splits)
    then have "commits w' = commits w @ [Obj style] \<and> fired w' = fired w
        \<and> requested w' = (if isAnimationRunning st then requested w else Suc (requested w))"
      using w' by simp
    with False static show ?thesis by auto
  qed
qed

theorem styleUpdater_static_commit_witness:
  "hasAnimations demo_callbacks (Num (Fin 5))
     (Obj [(Name ''opacity'', Ref 1), (Name ''width'', Num (Fin 50))])
     (\<lparr>last_values = [(Name ''height'', Num (Fin 9))], animations = [],
       isAnimationRunning = False, isAnimationCancelled = False\<rparr>, demo_world)
   \<and> (\<exists>st' w' style.
        styleUpdater demo_callbacks True (Num (Fin 5)) Undefined
          (Obj [(Name ''opacity'', Ref 1), (Name ''width'', Num (Fin 50))])
          (\<lparr>last_values = [(Name ''height'', Num (Fin 9))], animations = [],
            isAnimationRunning = False, isAnimationCancelled = False\<rparr>, demo_world)
          = Inr (st', w')
        \<and> commits w' = [Obj style] \<and> fired w' = [] \<and> requested w' = 1)"
proof -
  let ?P = "Obj [(Name ''opacity'', Ref 1), (Name ''width'', Num (Fin 50))]"
  let ?S = "\<lparr>last_values = [(Name ''height'', Num (Fin 9))], animations = [],
       isAnimationRunning = False, isAnimationCancelled = False\<rparr>"
  have has: "hasAnimations demo_callbacks (Num (Fin 5)) ?P (?S, demo_world)"
    by (simp add: eval_updater)
  obtain r where "styleUpdater demo_callbacks True (Num (Fin 5)) Undefined ?P (?S, demo_world) = Inr r"
    by (simp add: eval_updater)
  then obtain st' w' where
    ret: "styleUpdater demo_callbacks True (Num (Fin 5)) Undefined ?P (?S, demo_world) = Inr (st', w')"
    by (cases r) auto
  from styleUpdater_static_commit [OF ret has] obtain style where
    "commits w' = commits demo_world @ [Obj style] \<and> fired w' = fired demo_world
      \<and> requested w' = Suc (requested demo_world)"
    by auto
  then have "commits w' = [Obj style] \<and> fired w' = [] \<and> requested w' = 1"
    by (simp add: demo_world_def)
  with has ret show ?thesis by blast
qed

text \<open>
  C3. \<^verbatim>\<open>styleUpdater\<close> on a result without animated entries: \<^verbatim>\<open>state.last\<close> is the
  \<^verbatim>\<open>{width: 10}\<close> it was, not its merge \<^verbatim>\<open>{width: 50}\<close> with the new result, which is
  committed.
\<close>

theorem last_not_merged_when_static:
  "styleUpdater demo_callbacks True (Num (Fin 5)) Undefined
     (Obj [(Name ''width'', Num (Fin 50))])
     (\<lparr>last_values = [(Name ''width'', Num (Fin 10))], animations = [],
       isAnimationRunning = False, isAnimationCancelled = False\<rparr>, demo_world)
   = Inr (\<lparr>last_values = [(Name ''width'', Num (Fin 10))], animations = [],
            isAnimationRunning = False, isAnimationCancelled = True\<rparr>,
          demo_world\<lparr>commits := [Obj [(Name ''width'', Num (Fin 50))]]\<rparr>)"
  by (simp add: eval_updater)

text \<open>
  In general: without an animated entry \<^verbatim>\<open>styleUpdater\<close> leaves \<^verbatim>\<open>state.last\<close> alone,
  while its animated branch and both branches of \<^verbatim>\<open>jestStyleUpdater\<close> store the merge
  (stated here for the runs in which no continuation runs inside the updater).
\<close>

lemma styleUpdater_last_kept_when_static:
  assumes "styleUpdater L active now frameTimestamp produced (st, w) = Inr (st', w')"
    and "\<not> hasAnimations L now produced (st, w)"
  shows "last_values st' = last_values st"
  using assms
  by (auto simp: styleUpdater_def hasAnimations_def Let_def split: sum.splits prod.splits if_splits)

lemma map_of_fold_update:
  "map_of (fold (\<lambda>k t. AList.update k (f k) t) ks t) =
     (\<lambda>k. if k \<in> set ks then Some (f k) else map_of t k)"
  by (induction ks arbitrary: t) (auto simp: fun_eq_iff update_conv')

lemma map_of_assign_Obj: "map_of (assign h t (Obj new)) = map_of t ++ map_of new"
proof
  fix k
  show "map_of (assign h t (Obj new)) k = (map_of t ++ map_of new) k"
  proof (cases "map_of new k")
    case None
    then have "k \<notin> set (map fst new)" by (simp add: map_of_eq_None_iff)
    with None show ?thesis by (simp add: assign_def map_of_fold_update map_add_def)
  next
    case (Some v)
    then have "k \<in> set (map fst new)" by (metis map_of_eq_None_iff option.distinct(1) set_map)
    with Some show ?thesis by (simp add: assign_def map_of_fold_update map_add_def obj_get_def)
  qed
qed

lemma merged_map: "map_of (assign h (assign h [] (Obj old)) (Obj new)) = map_of old ++ map_of new"
  by (simp add: map_of_assign_Obj)

lemma jest_last_merged:
  assumes "jestStyleUpdater L stringify active now frameTimestamp (Obj new) (st, w) = Inr (st', w')"
    and "isAnimationRunning st \<or> \<not> truthy frameTimestamp"
  shows "map_of (last_values st') = map_of (last_values st) ++ map_of new"
  using assms
  by (auto simp: jestStyleUpdater_def start_loop_def Let_def nullish_def merged_map
      split: sum.splits prod.splits if_splits)

lemma styleUpdater_last_merged_when_animated:
  assumes "styleUpdater L active now frameTimestamp (Obj new) (st, w) = Inr (st', w')"
    and "hasAnimations L now (Obj new) (st, w)"
    and "isAnimationRunning st \<or> \<not> truthy frameTimestamp"
  shows "map_of (last_values st') = map_of (last_values st) ++ map_of new"
  using assms
  by (auto simp: styleUpdater_def hasAnimations_def start_loop_def Let_def nullish_def merged_map
      split: sum.splits prod.splits if_splits)

text \<open>
  C4. \<^verbatim>\<open>styleUpdater\<close> with \<^verbatim>\<open>opacity\<close> in flight and a new result that animates
  \<^verbatim>\<open>width\<close> and no longer mentions \<^verbatim>\<open>opacity\<close>: \<^verbatim>\<open>opacity\<close> stays in \<^verbatim>\<open>state.animations\<close>.
\<close>

theorem stale_animation_kept:
  "map_sum id (\<lambda>sw. animations (fst sw))
     (styleUpdater demo_callbacks True (Num (Fin 5)) Undefined
        (Obj [(Name ''width'', Ref 2)])
        (\<lparr>last_values = [(Name ''opacity'', Ref 1)], animations = [(Name ''opacity'', Ref 1)],
          isAnimationRunning = True, isAnimationCancelled = False\<rparr>, demo_world))
   = Inr [(Name ''opacity'', Ref 1), (Name ''width'', Ref 2)]"
  by (simp add: eval_updater)

text \<open>On the same input \<^verbatim>\<open>jestStyleUpdater\<close> deletes it.\<close>

lemma jest_drops_stale_animation:
  "map_sum id (\<lambda>sw. animations (fst sw))
     (jestStyleUpdater demo_callbacks no_text True (Num (Fin 5)) Undefined
        (Obj [(Name ''width'', Ref 2)])
        (\<lparr>last_values = [(Name ''opacity'', Ref 1)], animations = [(Name ''opacity'', Ref 1)],
          isAnimationRunning = True, isAnimationCancelled = False\<rparr>, demo_world))
   = Inr [(Name ''width'', Ref 2)]"
  by (simp add: eval_updater)

text \<open>
  In general: the loop of \<^verbatim>\<open>styleUpdater\<close> leaves every key of \<^verbatim>\<open>animations\<close> that the
  new result does not have as it is, while the first loop of \<^verbatim>\<open>jestStyleUpdater\<close> deletes
  every key that the new result does not animate.
\<close>

lemma bind_loop_keeps_absent_keys:
  "bind_loop L now newValues oldValues keys (h, anims, b) = Inr (h', anims', b') \<Longrightarrow>
   k \<notin> set keys \<Longrightarrow> map_of anims' k = map_of anims k"
proof (induction keys arbitrary: h anims b)
  case Nil
  then show ?case by simp
next
  case (Cons key keys)
  then show ?case
    by (auto simp: Let_def update_conv' delete_conv' split: sum.splits bool.splits if_splits)
qed

lemma jest_drop_loop_map_of:
  "jest_drop_loop h newValues keys anims = Inr anims' \<Longrightarrow>
   map_of anims' k =
     (if k \<in> set keys \<and> isAnimated h (read_prop h newValues k) = Inr False then None
      else map_of anims k)"
proof (induction keys arbitrary: anims)
  case Nil
  then show ?case by simp
next
  case (Cons key keys)
  show ?case
  proof (cases "isAnimated h (read_prop h newValues key)")
    case (Inl e)
    with Cons.prems show ?thesis by simp
  next
    case (Inr animated)
    show ?thesis
    proof (cases animated)
      case True
      with Inr Cons show ?thesis by auto
    next
      case False
      with Inr Cons.prems have "jest_drop_loop h newValues keys (AList.delete key anims) = Inr anims'"
        by simp
      from Cons.IH [OF this] Inr False show ?thesis
        by (auto simp: delete_conv')
    qed
  qed
qed

end
